theory Spec2Isabelle
  imports Complex_Main "HOL-Library.AList" "HOL-Library.Char_ord" "HOL-Library.List_Lexorder"
    "HOL-Library.Product_Lexorder" "HOL-Library.Log_Nat"
begin

section \<open>Python values and text\<close>

text \<open>
  The ownership engine of \<^verbatim>\<open>logic_handler.py\<close> is embedded function by function.
  Conventions of the embedding:

  \<^item> a Python \<^verbatim>\<open>str\<close> is a \<^typ>\<open>string\<close> whose characters are the code points 0..255
    (Latin-1, which holds every letter of the Portuguese labels the engine matches);
    code points above 255 are outside the model;
  \<^item> a finite Python \<^verbatim>\<open>float\<close> is the rational it denotes. The percentage parser rounds
    as the program does: what it reads from a text, the quotient of a fraction and the
    product by 100 are each rounded to the nearest binary64 value, ties to even. The
    arithmetic of the ledger (sums, differences, products and quotients of percentages)
    is exact: there the program's floats agree with the model up to rounding error;
  \<^item> a raise that nothing catches is the value \<open>Inl e\<close>. \<open>Inl NaoFinito\<close> is not a raise:
    the parser has returned the float \<^verbatim>\<open>inf\<close> or \<^verbatim>\<open>-inf\<close> and the program goes on with
    it; the rational ledger cannot hold it, and the model of the handlers says nothing
    more of such a run.
\<close>

datatype py_error = OverflowError | ValueError | IndexError | TypeError | NaoFinito

datatype pyval = PNone | PFloat rat | PInt int | PStr string
  \<comment> \<open>\<open>PFloat x\<close> is the finite float whose value is \<open>x\<close>\<close>

definition espacos :: "char list" where
  \<comment> \<open>the characters of 0..255 for which \<^verbatim>\<open>str.isspace\<close> holds\<close>
  "espacos = [CHR 0x09, CHR 0x0A, CHR 0x0B, CHR 0x0C, CHR 0x0D, CHR 0x1C, CHR 0x1D, CHR 0x1E,
     CHR 0x1F, CHR 0x20, CHR 0x85, CHR 0xA0]"

definition py_strip :: "string \<Rightarrow> string" where
  "py_strip s = rev (dropWhile (\<lambda>c. c \<in> set espacos) (rev (dropWhile (\<lambda>c. c \<in> set espacos) s)))"

definition maiusculas :: "char list" where
  "maiusculas = ''ABCDEFGHIJKLMNOPQRSTUVWXYZ'' @
     [CHR 0xC0, CHR 0xC1, CHR 0xC2, CHR 0xC3, CHR 0xC4, CHR 0xC5, CHR 0xC6, CHR 0xC7,
      CHR 0xC8, CHR 0xC9, CHR 0xCA, CHR 0xCB, CHR 0xCC, CHR 0xCD, CHR 0xCE, CHR 0xCF,
      CHR 0xD0, CHR 0xD1, CHR 0xD2, CHR 0xD3, CHR 0xD4, CHR 0xD5, CHR 0xD6,
      CHR 0xD8, CHR 0xD9, CHR 0xDA, CHR 0xDB, CHR 0xDC, CHR 0xDD, CHR 0xDE]"

definition minusculas :: "char list" where
  "minusculas = ''abcdefghijklmnopqrstuvwxyz'' @
     [CHR 0xE0, CHR 0xE1, CHR 0xE2, CHR 0xE3, CHR 0xE4, CHR 0xE5, CHR 0xE6, CHR 0xE7,
      CHR 0xE8, CHR 0xE9, CHR 0xEA, CHR 0xEB, CHR 0xEC, CHR 0xED, CHR 0xEE, CHR 0xEF,
      CHR 0xF0, CHR 0xF1, CHR 0xF2, CHR 0xF3, CHR 0xF4, CHR 0xF5, CHR 0xF6,
      CHR 0xF8, CHR 0xF9, CHR 0xFA, CHR 0xFB, CHR 0xFC, CHR 0xFD, CHR 0xFE]"

definition lower_char :: "char \<Rightarrow> char" where
  "lower_char c = (case map_of (zip maiusculas minusculas) c of Some d \<Rightarrow> d | None \<Rightarrow> c)"

definition py_lower :: "string \<Rightarrow> string" where
  "py_lower s = map lower_char s"

fun contem :: "string \<Rightarrow> string \<Rightarrow> bool" where
  \<comment> \<open>\<^verbatim>\<open>s in t\<close> on strings\<close>
  "contem s [] = (s = [])"
| "contem s (c # cs) = (take (length s) (c # cs) = s \<or> contem s cs)"

fun py_split :: "char \<Rightarrow> string \<Rightarrow> string list" where
  \<comment> \<open>\<^verbatim>\<open>t.split(sep)\<close> for a separator of one character\<close>
  "py_split sep [] = [[]]"
| "py_split sep (c # cs) =
     (if c = sep then [] # py_split sep cs
      else (case py_split sep cs of p # ps \<Rightarrow> (c # p) # ps | [] \<Rightarrow> [[c]]))"

definition digitos :: "char list" where
  "digitos = ''0123456789''"

definition eh_digito :: "char \<Rightarrow> bool" where
  "eh_digito c = (c \<in> set digitos)"

definition valor_digito :: "char \<Rightarrow> nat" where
  "valor_digito c = (of_char c :: nat) - 48"

definition valor_digitos :: "string \<Rightarrow> nat" where
  "valor_digitos ds = foldl (\<lambda>n c. 10 * n + valor_digito c) 0 ds"

fun sem_sublinhado_duplo :: "string \<Rightarrow> bool" where
  "sem_sublinhado_duplo (a # b # cs) =
     (\<not> (a = CHR ''_'' \<and> b = CHR ''_'') \<and> sem_sublinhado_duplo (b # cs))"
| "sem_sublinhado_duplo _ = True"

definition espacos_int :: "char list" where
  \<comment> \<open>the characters of 0..255 that \<^verbatim>\<open>int(str)\<close> skips at both ends\<close>
  "espacos_int = [CHR 0x09, CHR 0x0A, CHR 0x0B, CHR 0x0C, CHR 0x0D, CHR 0x20, CHR 0x85, CHR 0xA0]"

definition py_int :: "string \<Rightarrow> int option" where
  \<comment> \<open>\<^verbatim>\<open>int(s)\<close> in base 10; \<open>None\<close> is ValueError. Surrounding blanks, one sign, decimal
      digits, single underscores between digits, and at most 4300 digits (the default of
      \<^verbatim>\<open>sys.set_int_max_str_digits\<close>).\<close>
  "py_int s =
     (let t = rev (dropWhile (\<lambda>c. c \<in> set espacos_int)
                (rev (dropWhile (\<lambda>c. c \<in> set espacos_int) s)));
          neg = (t \<noteq> [] \<and> hd t = CHR ''-'');
          corpo = (if t \<noteq> [] \<and> (hd t = CHR ''-'' \<or> hd t = CHR ''+'') then tl t else t)
      in if corpo \<noteq> [] \<and> eh_digito (hd corpo) \<and> eh_digito (last corpo)
            \<and> (\<forall>c \<in> set corpo. eh_digito c \<or> c = CHR ''_'') \<and> sem_sublinhado_duplo corpo
            \<and> length (filter eh_digito corpo) \<le> 4300
         then (let n = int (valor_digitos (filter eh_digito corpo)) in Some (if neg then - n else n))
         else None)"

definition pot2 :: "int \<Rightarrow> rat" where
  "pot2 k = (if 0 \<le> k then 2 ^ nat k else 1 / 2 ^ nat (- k))"

definition expoente2 :: "int \<Rightarrow> int \<Rightarrow> int" where
  \<comment> \<open>the integer \<open>e\<close> with \<open>2 ^ e \<le> p / q < 2 ^ (e + 1)\<close>, for positive \<open>p\<close> and \<open>q\<close>\<close>
  "expoente2 p q =
     (let d = bitlen p - bitlen q
      in if (if 0 \<le> d then q * 2 ^ nat d \<le> p else q \<le> p * 2 ^ nat (- d)) then d else d - 1)"

definition arred_par :: "int \<Rightarrow> int \<Rightarrow> int" where
  \<comment> \<open>\<open>p / q\<close> rounded to the nearest integer, ties to even, for \<open>0 \<le> p\<close> and \<open>0 < q\<close>\<close>
  "arred_par p q =
     (let n = p div q; r = p mod q
      in if 2 * r < q then n else if q < 2 * r then n + 1 else if even n then n else n + 1)"

definition binary64 :: "int \<Rightarrow> int \<Rightarrow> rat option" where
  \<comment> \<open>the binary64 value nearest to \<open>p / q\<close> (\<open>q \<noteq> 0\<close>), ties to even: 53 significant bits,
      exponents from -1022 (below, the spacing stays \<open>2 ^ -1074\<close>); \<open>None\<close> when the rounded
      magnitude reaches \<open>2 ^ 1024\<close>, which no finite float holds\<close>
  "binary64 p q =
     (if p = 0 then Some 0
      else (let a = \<bar>p\<bar>; b = \<bar>q\<bar>;
                e = max (expoente2 a b) (- 1022);
                k = e - 52;
                n = (if 0 \<le> k then arred_par a (b * 2 ^ nat k) else arred_par (a * 2 ^ nat (- k)) b);
                v = of_int n * pot2 k
            in if 2 ^ 1024 \<le> v then None else Some (if (p < 0) = (q < 0) then v else - v)))"

definition arredondar :: "rat \<Rightarrow> rat option" where
  \<comment> \<open>the float that an arithmetic operation returns for the exact result \<open>x\<close>\<close>
  "arredondar x = (case quotient_of x of (p, q) \<Rightarrow> binary64 p q)"

datatype flutuante = Finito rat | MaisInfinito | MenosInfinito

definition vezes_100 :: "rat \<Rightarrow> flutuante" where
  \<comment> \<open>the float product \<^verbatim>\<open>x * 100\<close> for a finite float \<open>x\<close>\<close>
  "vezes_100 x =
     (case arredondar (x * 100) of
        Some y \<Rightarrow> Finito y
      | None \<Rightarrow> if 0 < x then MaisInfinito else MenosInfinito)"

definition py_float :: "string \<Rightarrow> flutuante option" where
  \<comment> \<open>\<^verbatim>\<open>float(s)\<close> on the texts that reach it in \<^verbatim>\<open>parse_percentual\<close>, which hold decimal
      digits and dots only: at most one dot and at least one digit, else ValueError (\<open>None\<close>).
      The decimal number is rounded to the nearest float, \<^verbatim>\<open>inf\<close> beyond the range.\<close>
  "py_float s =
     (if (\<forall>c \<in> set s. eh_digito c \<or> c = CHR ''.'') \<and> length (filter (\<lambda>c. c = CHR ''.'') s) \<le> 1
         \<and> (\<exists>c \<in> set s. eh_digito c)
      then (let decimais = drop 1 (dropWhile eh_digito s)
            in case binary64 (int (valor_digitos (filter eh_digito s))) (10 ^ length decimais) of
                 Some v \<Rightarrow> Some (Finito v)
               | None \<Rightarrow> Some MaisInfinito)
      else None)"

fun digitos_de :: "nat \<Rightarrow> nat \<Rightarrow> string" where
  \<comment> \<open>the last \<open>k\<close> decimal digits of \<open>n\<close>\<close>
  "digitos_de 0 n = []"
| "digitos_de (Suc k) n = digitos_de k (n div 10) @ [digitos ! (n mod 10)]"

fun num_digitos :: "nat \<Rightarrow> nat \<Rightarrow> nat" where
  \<comment> \<open>the number of decimal digits of \<open>n\<close>, the first argument bounding the search\<close>
  "num_digitos 0 n = 1"
| "num_digitos (Suc k) n = (if n < 10 then 1 else Suc (num_digitos k (n div 10)))"

definition str_nat :: "nat \<Rightarrow> string" where
  "str_nat n = digitos_de (num_digitos n n) n"

definition str_int :: "int \<Rightarrow> string" where
  "str_int i = (if i < 0 then CHR ''-'' # str_nat (nat (- i)) else str_nat (nat i))"

definition limite_str_int :: int where
  \<comment> \<open>the least magnitude with more than 4300 digits\<close>
  "limite_str_int = 10 ^ 4300"

definition py_str :: "pyval \<Rightarrow> py_error + string" where
  \<comment> \<open>\<^verbatim>\<open>str(v)\<close>, which refuses an integer of more than 4300 digits; a float never reaches
      it in \<^verbatim>\<open>parse_percentual\<close>\<close>
  "py_str v =
     (case v of
        PStr s \<Rightarrow> Inr s
      | PInt i \<Rightarrow> if \<bar>i\<bar> < limite_str_int then Inr (str_int i) else Inl ValueError
      | PNone \<Rightarrow> Inr ''None''
      | PFloat x \<Rightarrow> Inr [])"

definition truthy :: "pyval \<Rightarrow> bool" where
  "truthy v = (case v of PNone \<Rightarrow> False | PStr s \<Rightarrow> s \<noteq> [] | PInt i \<Rightarrow> i \<noteq> 0 | PFloat x \<Rightarrow> x \<noteq> 0)"

section \<open>The percentage parser\<close>

definition a_til :: char where "a_til = CHR 0xE3"
definition c_cedilha :: char where "c_cedilha = CHR 0xE7"
definition o_agudo :: char where "o_agudo = CHR 0xF3"

definition nao_informado :: string where
  "nao_informado = ''N'' @ [a_til] @ ''o informado''"

definition sentinelas :: "string list" where
  "sentinelas = [''n'' @ [a_til] @ ''o informado'', ''nao informado'', [], ''indeterminado'',
     ''parcial'']"

definition limite_float :: rat where
  \<comment> \<open>the least magnitude that true division of integers refuses to round to a float\<close>
  "limite_float = 2 ^ 1024 - 2 ^ 970"

definition float_de_fracao :: "int \<Rightarrow> int \<Rightarrow> py_error + flutuante option" where
  \<comment> \<open>\<^verbatim>\<open>float(Fraction(a, b)) * 100\<close>; \<open>Inr None\<close> is the ZeroDivisionError the caller catches.
      The true division of the integers rounds the quotient to the nearest float or raises;
      the product by 100 rounds again and gives \<^verbatim>\<open>inf\<close> beyond the range.\<close>
  "float_de_fracao a b =
     (if b = 0 then Inr None
      else if \<bar>of_int a / of_int b\<bar> \<ge> limite_float then Inl OverflowError
      else (case binary64 a b of
              None \<Rightarrow> Inl OverflowError
            | Some x \<Rightarrow> Inr (Some (vezes_100 x))))"

definition limpar :: "string \<Rightarrow> string" where
  \<comment> \<open>\<^verbatim>\<open>re.sub(r'[^\d.,]', '', txt).replace(',', '.')\<close>\<close>
  "limpar txt = map (\<lambda>c. if c = CHR '','' then CHR ''.'' else c)
     (filter (\<lambda>c. eh_digito c \<or> c = CHR ''.'' \<or> c = CHR '','') txt)"

definition parse_percentual :: "pyval \<Rightarrow> py_error + flutuante option" where
  \<comment> \<open>\<open>Inr None\<close> is the unknown marker; the \<^verbatim>\<open>str\<close> of the second line is outside the
      \<^verbatim>\<open>try\<close>\<close>
  "parse_percentual percentual =
     (case percentual of
        PFloat x \<Rightarrow> Inr (Some (Finito x))
      | _ \<Rightarrow>
        if \<not> truthy percentual then Inr None
        else (case py_str percentual of
           Inl e \<Rightarrow> Inl e
         | Inr s \<Rightarrow>
            if py_lower (py_strip s) \<in> set sentinelas then Inr None
            else (let txt = py_strip s in
              if CHR ''/'' \<in> set txt then
                (case py_split (CHR ''/'') txt of
                   p0 # p1 # _ \<Rightarrow>
                     (case py_int p0 of
                        None \<Rightarrow> Inr None
                      | Some a \<Rightarrow>
                          (case py_int p1 of None \<Rightarrow> Inr None | Some b \<Rightarrow> float_de_fracao a b))
                 | _ \<Rightarrow> Inl IndexError)
              else (case py_float (limpar txt) of
                      None \<Rightarrow> Inr None
                    | Some MaisInfinito \<Rightarrow> Inr (Some MaisInfinito)
                    | Some MenosInfinito \<Rightarrow> Inr (Some MenosInfinito)
                    | Some (Finito valor) \<Rightarrow>
                        Inr (Some (if valor \<le> 1 then vezes_100 valor else Finito valor))))))"

definition parse_finito :: "pyval \<Rightarrow> py_error + rat option" where
  \<comment> \<open>\<^verbatim>\<open>parse_percentual\<close> as the handlers of the ledger use it: with a finite result, the
      rational it denotes; with an infinite one, the end of what the model says\<close>
  "parse_finito v =
     (case parse_percentual v of
        Inl e \<Rightarrow> Inl e
      | Inr None \<Rightarrow> Inr None
      | Inr (Some (Finito x)) \<Rightarrow> Inr (Some x)
      | Inr (Some MaisInfinito) \<Rightarrow> Inl NaoFinito
      | Inr (Some MenosInfinito) \<Rightarrow> Inl NaoFinito)"

section \<open>Holders, keys and ledger records\<close>

text \<open>
  The dictionaries of the JSON input are records; a field of type \<open>option\<close> is \<open>None\<close>
  when the key is absent. The lists \<^verbatim>\<open>Agents\<close> and \<^verbatim>\<open>Beneficiaries\<close> are read with
  \<^verbatim>\<open>.get(key, [])\<close> everywhere, so an absent list is the empty list.
\<close>

record conjuge_ref =
  cj_Name :: "string option"
  cj_Nome :: "string option"
  cj_CPF :: "string option"

record pessoa =
  Name :: "string option"
  CPF :: "string option"
  Percentage_Transferred :: "pyval option"
  Percentage_Received :: "pyval option"
  Spouse :: "conjuge_ref option"

record registro =
  Nome :: "string option"
  CPF_reg :: string
  Percentual :: rat
  Conjuge :: "(string \<times> string) option"

type_synonym ledger = "(string \<times> registro) list"

definition tabela_nome :: "(char \<times> string) list" where
  \<comment> \<open>\<^verbatim>\<open>upper\<close>, NFKD decomposition, ASCII encoding with \<^verbatim>\<open>ignore\<close> and the removal of
      what is not in \<^verbatim>\<open>[A-Z0-9 ]\<close>, on the code points 128..255 that leave something\<close>
  "tabela_nome = [
      (CHR 0xA0, '' ''), (CHR 0xA8, '' ''), (CHR 0xAF, '' ''), (CHR 0xB2, ''2''), (CHR 0xB3, ''3''),
      (CHR 0xB4, '' ''), (CHR 0xB8, '' ''), (CHR 0xB9, ''1''), (CHR 0xBC, ''14''), (CHR 0xBD, ''12''),
      (CHR 0xBE, ''34''), (CHR 0xC0, ''A''), (CHR 0xC1, ''A''), (CHR 0xC2, ''A''), (CHR 0xC3, ''A''),
      (CHR 0xC4, ''A''), (CHR 0xC5, ''A''), (CHR 0xC7, ''C''), (CHR 0xC8, ''E''), (CHR 0xC9, ''E''),
      (CHR 0xCA, ''E''), (CHR 0xCB, ''E''), (CHR 0xCC, ''I''), (CHR 0xCD, ''I''), (CHR 0xCE, ''I''),
      (CHR 0xCF, ''I''), (CHR 0xD1, ''N''), (CHR 0xD2, ''O''), (CHR 0xD3, ''O''), (CHR 0xD4, ''O''),
      (CHR 0xD5, ''O''), (CHR 0xD6, ''O''), (CHR 0xD9, ''U''), (CHR 0xDA, ''U''), (CHR 0xDB, ''U''),
      (CHR 0xDC, ''U''), (CHR 0xDD, ''Y''), (CHR 0xDF, ''SS''), (CHR 0xE0, ''A''), (CHR 0xE1, ''A''),
      (CHR 0xE2, ''A''), (CHR 0xE3, ''A''), (CHR 0xE4, ''A''), (CHR 0xE5, ''A''), (CHR 0xE7, ''C''),
      (CHR 0xE8, ''E''), (CHR 0xE9, ''E''), (CHR 0xEA, ''E''), (CHR 0xEB, ''E''), (CHR 0xEC, ''I''),
      (CHR 0xED, ''I''), (CHR 0xEE, ''I''), (CHR 0xEF, ''I''), (CHR 0xF1, ''N''), (CHR 0xF2, ''O''),
      (CHR 0xF3, ''O''), (CHR 0xF4, ''O''), (CHR 0xF5, ''O''), (CHR 0xF6, ''O''), (CHR 0xF9, ''U''),
      (CHR 0xFA, ''U''), (CHR 0xFB, ''U''), (CHR 0xFC, ''U''), (CHR 0xFD, ''Y''), (CHR 0xFF, ''Y'')]"

definition nome_char :: "char \<Rightarrow> string" where
  "nome_char c =
     (if c \<in> set (''ABCDEFGHIJKLMNOPQRSTUVWXYZ'' @ digitos @ '' '') then [c]
      else (case map_of (zip ''abcdefghijklmnopqrstuvwxyz'' ''ABCDEFGHIJKLMNOPQRSTUVWXYZ'') c of
              Some d \<Rightarrow> [d]
            | None \<Rightarrow> (case map_of tabela_nome c of Some t \<Rightarrow> t | None \<Rightarrow> [])))"

definition normalizar_nome :: "string \<Rightarrow> string" where
  "normalizar_nome nome = concat (map nome_char (py_strip nome))"

definition chave_proprietario :: "pessoa \<Rightarrow> string" where
  "chave_proprietario item =
     (case CPF item of
        Some cpf \<Rightarrow> if cpf \<noteq> [] \<and> py_strip cpf \<noteq> [] then py_strip cpf
                    else normalizar_nome (case Name item of Some n \<Rightarrow> n | None \<Rightarrow> [])
      | None \<Rightarrow> normalizar_nome (case Name item of Some n \<Rightarrow> n | None \<Rightarrow> []))"

definition ou_texto :: "string option \<Rightarrow> string \<Rightarrow> string" where
  \<comment> \<open>\<^verbatim>\<open>x or d\<close> for a text \<open>x\<close> that may be absent\<close>
  "ou_texto x d = (case x of Some s \<Rightarrow> if s \<noteq> [] then s else d | None \<Rightarrow> d)"

definition processar_conjuge :: "conjuge_ref option \<Rightarrow> (string \<times> string) option" where
  \<comment> \<open>\<open>None\<close> is the empty dictionary\<close>
  "processar_conjuge conjuge =
     (case conjuge of
        Some c \<Rightarrow> Some (ou_texto (cj_Name c) (ou_texto (cj_Nome c) nao_informado),
                        ou_texto (cj_CPF c) nao_informado)
      | None \<Rightarrow> None)"

definition novo_registro :: "pessoa \<Rightarrow> rat \<Rightarrow> registro" where
  "novo_registro p pct =
     \<lparr>Nome = Name p, CPF_reg = (case CPF p of Some c \<Rightarrow> c | None \<Rightarrow> nao_informado),
      Percentual = pct, Conjuge = processar_conjuge (Spouse p)\<rparr>"

definition pct_transferido :: "pessoa \<Rightarrow> pyval" where
  \<comment> \<open>\<^verbatim>\<open>agente.get("Percentage_Transferred", "")\<close>\<close>
  "pct_transferido a = (case Percentage_Transferred a of Some v \<Rightarrow> v | None \<Rightarrow> PStr [])"

definition pct_recebido :: "pessoa \<Rightarrow> pyval" where
  \<comment> \<open>\<^verbatim>\<open>b.get("Percentage_Received", "")\<close>\<close>
  "pct_recebido b = (case Percentage_Received b of Some v \<Rightarrow> v | None \<Rightarrow> PStr [])"

definition total :: "ledger \<Rightarrow> rat" where
  "total props = sum_list (map (\<lambda>kv. Percentual (snd kv)) props)"

definition valor :: "ledger \<Rightarrow> string \<Rightarrow> rat" where
  \<comment> \<open>the percentage that a key holds in a ledger, 0 when it has no record\<close>
  "valor props k = (case map_of props k of Some r \<Rightarrow> Percentual r | None \<Rightarrow> 0)"

section \<open>Transfer: sale and donation\<close>

definition inicializar :: "pessoa list \<Rightarrow> ledger" where
  \<comment> \<open>the bootstrap of an empty ledger\<close>
  "inicializar agentes =
     foldl (\<lambda>props agente.
        AList.update (chave_proprietario agente)
          (novo_registro agente (100 / of_nat (length agentes))) props) [] agentes"

fun debitar :: "ledger \<Rightarrow> rat \<Rightarrow> pessoa list \<Rightarrow> py_error + (ledger \<times> rat)" where
  \<comment> \<open>the loop over the agents; the second argument is \<^verbatim>\<open>total_transferido\<close>\<close>
  "debitar props tt [] = Inr (props, tt)"
| "debitar props tt (agente # resto) =
     (case parse_finito (pct_transferido agente) of
        Inl e \<Rightarrow> Inl e
      | Inr None \<Rightarrow> debitar props tt resto
      | Inr (Some fracao) \<Rightarrow>
          (case map_of props (chave_proprietario agente) of
             Some r \<Rightarrow>
               (let current_share = Percentual r;
                    transfer_amount = current_share * (fracao / 100);
                    props1 = AList.update (chave_proprietario agente)
                               (r\<lparr>Percentual := current_share - transfer_amount\<rparr>) props;
                    props2 = (if current_share - transfer_amount < 1 / 10000
                              then AList.delete (chave_proprietario agente) props1 else props1)
                in debitar props2 (tt + transfer_amount) resto)
           | None \<Rightarrow> debitar props tt resto))"

fun parse_recebidos :: "pessoa list \<Rightarrow> py_error + rat option list" where
  "parse_recebidos [] = Inr []"
| "parse_recebidos (b # bs) =
     (case parse_finito (pct_recebido b) of
        Inl e \<Rightarrow> Inl e
      | Inr pct \<Rightarrow> (case parse_recebidos bs of Inl e \<Rightarrow> Inl e | Inr ps \<Rightarrow> Inr (pct # ps)))"

definition soma_declarados :: "rat option list \<Rightarrow> rat" where
  "soma_declarados pcts = sum_list (map the (filter (\<lambda>p. p \<noteq> None) pcts))"

definition nao_definidos :: "rat option list \<Rightarrow> nat" where
  "nao_definidos pcts = length (filter (\<lambda>p. p = None) pcts)"

definition repartir :: "rat \<Rightarrow> rat option list \<Rightarrow> rat option list" where
  \<comment> \<open>the branches shared by transfer and partition, after the test for "nobody declares"\<close>
  "repartir tt pcts =
     (let total_declared = soma_declarados pcts;
          remaining_percentage = max 0 (tt - total_declared);
          num_undefined_pct = nao_definidos pcts
      in if num_undefined_pct > 0
         then map (\<lambda>p. case p of Some v \<Rightarrow> Some v
                              | None \<Rightarrow> Some (remaining_percentage / of_nat num_undefined_pct)) pcts
         else if total_declared < tt
         then map (map_option (\<lambda>pct. pct + (if total_declared > 0
                                        then remaining_percentage * (pct / total_declared) else 0))) pcts
         else pcts)"

definition distribuir_venda :: "rat \<Rightarrow> rat option list \<Rightarrow> rat option list" where
  \<comment> \<open>the values of \<^verbatim>\<open>benef_info\<close> after the \<^verbatim>\<open>if\<close>/\<^verbatim>\<open>else\<close> of the transfer\<close>
  "distribuir_venda tt pcts =
     (if (\<forall>p \<in> set pcts. p = None) \<and> pcts \<noteq> []
      then map (\<lambda>_. Some (100 / of_nat (length pcts))) pcts
      else (let total_declared = soma_declarados pcts;
                pcts1 = (if total_declared > 100
                         then map (\<lambda>p. case p of Some v \<Rightarrow> Some v | None \<Rightarrow> Some 0) pcts
                         else pcts)
            in repartir tt pcts1))"

definition creditar_um :: "ledger \<Rightarrow> pessoa \<Rightarrow> rat \<Rightarrow> ledger" where
  "creditar_um props b addition =
     (case map_of props (chave_proprietario b) of
        Some r \<Rightarrow> AList.update (chave_proprietario b) (r\<lparr>Percentual := Percentual r + addition\<rparr>) props
      | None \<Rightarrow> AList.update (chave_proprietario b) (novo_registro b addition) props)"

fun creditar :: "ledger \<Rightarrow> (pessoa \<times> rat option) list \<Rightarrow> py_error + ledger" where
  \<comment> \<open>the loop over \<^verbatim>\<open>benef_info\<close>; adding \<^verbatim>\<open>None\<close> to a float would raise\<close>
  "creditar props [] = Inr props"
| "creditar props ((b, pct) # resto) =
     (case pct of
        None \<Rightarrow> Inl TypeError
      | Some addition \<Rightarrow> creditar (creditar_um props b addition) resto)"

definition atualizar_proprietarios_parcial ::
  "ledger \<Rightarrow> pessoa list \<Rightarrow> pessoa list \<Rightarrow> py_error + ledger" where
  "atualizar_proprietarios_parcial proprietarios agentes beneficiarios =
     (let props0 = (if proprietarios = [] \<and> agentes \<noteq> [] then inicializar agentes
                    else proprietarios)
      in case debitar props0 0 agentes of
           Inl e \<Rightarrow> Inl e
         | Inr (props1, total_transferido) \<Rightarrow>
             (case parse_recebidos beneficiarios of
                Inl e \<Rightarrow> Inl e
              | Inr pcts \<Rightarrow> creditar props1 (zip beneficiarios (distribuir_venda total_transferido pcts))))"

section \<open>Death, partition, usufruct and marital status\<close>

definition peso :: "rat option \<Rightarrow> rat" where
  \<comment> \<open>\<^verbatim>\<open>parse_percentual(...) or 100.0\<close>\<close>
  "peso p = (case p of None \<Rightarrow> 100 | Some v \<Rightarrow> if v = 0 then 100 else v)"

definition adicao_obito :: "rat \<Rightarrow> rat \<Rightarrow> rat option \<Rightarrow> rat" where
  \<comment> \<open>\<^verbatim>\<open>addition\<close>: what one heir receives of the share of one deceased holder\<close>
  "adicao_obito share total_frac pct =
     (let fracao = peso pct in if total_frac > 0 then share * (fracao / total_frac) else share)"

fun creditar_obito :: "ledger \<Rightarrow> rat \<Rightarrow> rat \<Rightarrow> (pessoa \<times> rat option) list \<Rightarrow> ledger" where
  \<comment> \<open>the loop over the heirs of one deceased holder\<close>
  "creditar_obito props share total_frac [] = props"
| "creditar_obito props share total_frac ((b, pct) # resto) =
     creditar_obito (creditar_um props b (adicao_obito share total_frac pct)) share total_frac resto"

fun obito_agentes :: "ledger \<Rightarrow> pessoa list \<Rightarrow> pessoa list \<Rightarrow> py_error + ledger" where
  \<comment> \<open>the loop over the deceased holders\<close>
  "obito_agentes props [] beneficiarios = Inr props"
| "obito_agentes props (agente # resto) beneficiarios =
     (case map_of props (chave_proprietario agente) of
        Some r \<Rightarrow>
          (case parse_recebidos beneficiarios of
             Inl e \<Rightarrow> Inl e
           | Inr pcts \<Rightarrow>
               (let share = Percentual r;
                    props1 = AList.delete (chave_proprietario agente) props;
                    total_frac = sum_list (map peso pcts)
                in obito_agentes (creditar_obito props1 share total_frac (zip beneficiarios pcts))
                     resto beneficiarios))
      | None \<Rightarrow> obito_agentes props resto beneficiarios)"

definition processar_obito :: "ledger \<Rightarrow> pessoa list \<Rightarrow> pessoa list \<Rightarrow> py_error + ledger" where
  \<comment> \<open>the second and third arguments are the action's \<^verbatim>\<open>Agents\<close> and \<^verbatim>\<open>Beneficiaries\<close>\<close>
  "processar_obito proprietarios agentes beneficiarios =
     obito_agentes proprietarios agentes beneficiarios"

fun remover_agentes :: "ledger \<Rightarrow> rat \<Rightarrow> pessoa list \<Rightarrow> ledger \<times> rat" where
  \<comment> \<open>the first loop of the partition; the second argument is \<^verbatim>\<open>total_removido\<close>\<close>
  "remover_agentes props tr [] = (props, tr)"
| "remover_agentes props tr (agente # resto) =
     (case map_of props (chave_proprietario agente) of
        Some r \<Rightarrow> remover_agentes (AList.delete (chave_proprietario agente) props)
                    (tr + Percentual r) resto
      | None \<Rightarrow> remover_agentes props tr resto)"

definition distribuir_partilha :: "rat \<Rightarrow> rat option list \<Rightarrow> rat option list" where
  "distribuir_partilha tr pcts =
     (if (\<forall>p \<in> set pcts. p = None) \<and> pcts \<noteq> []
      then map (\<lambda>_. Some (100 / of_nat (length pcts))) pcts
      else repartir tr pcts)"

definition processar_partilha :: "ledger \<Rightarrow> pessoa list \<Rightarrow> pessoa list \<Rightarrow> py_error + ledger" where
  "processar_partilha proprietarios agentes beneficiarios =
     (case remover_agentes proprietarios 0 agentes of
        (props1, total_removido) \<Rightarrow>
          (case parse_recebidos beneficiarios of
             Inl e \<Rightarrow> Inl e
           | Inr pcts \<Rightarrow> creditar props1 (zip beneficiarios (distribuir_partilha total_removido pcts))))"

fun processar_usufruto :: "ledger \<Rightarrow> pessoa list \<Rightarrow> py_error + ledger" where
  \<comment> \<open>the second argument is the action's \<^verbatim>\<open>Beneficiaries\<close>\<close>
  "processar_usufruto usufrutuarios [] = Inr usufrutuarios"
| "processar_usufruto usufrutuarios (b # resto) =
     (case parse_finito (pct_recebido b) of
        Inl e \<Rightarrow> Inl e
      | Inr pct \<Rightarrow> processar_usufruto (creditar_um usufrutuarios b (peso pct)) resto)"

fun processar_alteracao_estado_civil :: "ledger \<Rightarrow> pessoa list \<Rightarrow> ledger" where
  \<comment> \<open>the second argument is the action's \<^verbatim>\<open>Agents\<close>\<close>
  "processar_alteracao_estado_civil props [] = props"
| "processar_alteracao_estado_civil props (agente # resto) =
     (let chave = chave_proprietario agente; novo_conjuge = processar_conjuge (Spouse agente)
      in case map_of props chave of
           Some r \<Rightarrow>
             processar_alteracao_estado_civil
               (if Conjuge r = None then AList.update chave (r\<lparr>Conjuge := novo_conjuge\<rparr>) props
                else props) resto
         | None \<Rightarrow>
             processar_alteracao_estado_civil
               (AList.update chave ((novo_registro agente 0)\<lparr>Conjuge := novo_conjuge\<rparr>) props) resto)"

section \<open>Actions and the dispatcher\<close>

record acao =
  Action :: "string option"
  Tipo_da_Acao :: "string option"
  Date :: "string option"
  Data :: "string option"
  Agents :: "pessoa list"
  Beneficiaries :: "pessoa list"
  Additional_Info :: "string option"

definition obter_tipo_acao :: "acao \<Rightarrow> string" where
  "obter_tipo_acao a = py_strip (ou_texto (Action a) (ou_texto (Tipo_da_Acao a) []))"

definition podar :: "ledger \<Rightarrow> ledger" where
  \<comment> \<open>the comprehension that ends each iteration\<close>
  "podar props = filter (\<lambda>kv. Percentual (snd kv) > 1 / 10000) props"

definition t_alteracao_estado_civil :: string where
  "t_alteracao_estado_civil = ''altera'' @ [c_cedilha, a_til] @ ''o do estado civil e nome''"

definition t_alteracao_nome :: string where
  "t_alteracao_nome = ''altera'' @ [c_cedilha, a_til] @ ''o nome''"

definition t_doacao :: string where
  "t_doacao = ''doa'' @ [c_cedilha, a_til] @ ''o''"

definition t_obito :: string where
  "t_obito = [o_agudo] @ ''bito''"

definition processar_acao :: "ledger \<times> ledger \<Rightarrow> acao \<Rightarrow> py_error + (ledger \<times> ledger)" where
  \<comment> \<open>one iteration of the loop of \<^verbatim>\<open>processar_acoes\<close> on the pair of the bare-ownership
      ledger and the usufruct ledger\<close>
  "processar_acao st a =
     (case st of (proprietarios, usufrutuarios) \<Rightarrow>
       (let tipo = py_lower (obter_tipo_acao a) in
        if contem t_alteracao_estado_civil tipo then
          Inr (podar (processar_alteracao_estado_civil proprietarios (Agents a)), usufrutuarios)
        else if contem t_alteracao_nome tipo \<or> contem ''casamento'' tipo then
          Inr (proprietarios, usufrutuarios)
        else if contem ''venda'' tipo \<or> contem ''sale'' tipo \<or> contem ''venda nua propriedade'' tipo then
          (case atualizar_proprietarios_parcial proprietarios (Agents a) (Beneficiaries a) of
             Inl e \<Rightarrow> Inl e
           | Inr props \<Rightarrow> Inr (podar props, usufrutuarios))
        else if contem t_doacao tipo \<or> contem ''donation'' tipo then
          (case atualizar_proprietarios_parcial proprietarios (Agents a) (Beneficiaries a) of
             Inl e \<Rightarrow> Inl e
           | Inr props \<Rightarrow>
               if contem ''usufruto'' tipo
                  \<or> contem ''reserva'' (py_lower (case Additional_Info a of Some s \<Rightarrow> s | None \<Rightarrow> []))
               then (case processar_usufruto usufrutuarios (Beneficiaries a) of
                       Inl e \<Rightarrow> Inl e
                     | Inr usu \<Rightarrow> Inr (podar props, usu))
               else Inr (podar props, usufrutuarios))
        else if contem t_obito tipo \<or> contem ''falecimento'' tipo \<or> contem ''death'' tipo then
          (case processar_obito proprietarios (Agents a) (Beneficiaries a) of
             Inl e \<Rightarrow> Inl e
           | Inr props \<Rightarrow> Inr (podar props, usufrutuarios))
        else if contem ''partilha'' tipo \<or> contem ''share'' tipo then
          (case processar_partilha proprietarios (Agents a) (Beneficiaries a) of
             Inl e \<Rightarrow> Inl e
           | Inr props \<Rightarrow> Inr (podar props, usufrutuarios))
        else if contem ''usufruto'' tipo \<or> contem ''usufruct'' tipo then
          (case processar_usufruto usufrutuarios (Beneficiaries a) of
             Inl e \<Rightarrow> Inl e
           | Inr usu \<Rightarrow> Inr (podar proprietarios, usu))
        else if contem ''cancelamento de usufruto'' tipo then
          Inr (podar proprietarios, usufrutuarios)
        else Inr (podar proprietarios, usufrutuarios)))"

definition chega_a_transferencia :: "acao \<Rightarrow> bool" where
  \<comment> \<open>the labels that the chain of \<^verbatim>\<open>processar_acoes\<close> sends to \<^verbatim>\<open>processar_venda\<close> or to
      \<^verbatim>\<open>processar_doacao\<close>: its third or fourth test holds and the two before do not\<close>
  "chega_a_transferencia a =
     (let tipo = py_lower (obter_tipo_acao a)
      in \<not> contem t_alteracao_estado_civil tipo
         \<and> \<not> (contem t_alteracao_nome tipo \<or> contem ''casamento'' tipo)
         \<and> (contem ''venda'' tipo \<or> contem ''sale'' tipo \<or> contem ''venda nua propriedade'' tipo
            \<or> contem t_doacao tipo \<or> contem ''donation'' tipo))"


section \<open>Dates and the action normalizer\<close>

text \<open>
  A \<^verbatim>\<open>datetime\<close> built from a date alone is the triple (year, month, day), ordered
  lexicographically. \<^verbatim>\<open>datetime.strptime\<close> turns the format into a regular expression,
  takes its first match at the start of the text in backtracking order and refuses text that
  the match does not consume: \<^verbatim>\<open>%d\<close> is \<^verbatim>\<open>3[0-1]|[1-2]\d|0[1-9]|[1-9]| [1-9]\<close>,
  \<^verbatim>\<open>%m\<close> is \<^verbatim>\<open>1[0-2]|0[1-9]|[1-9]\<close> and \<^verbatim>\<open>%Y\<close> is four digits.
\<close>

type_synonym datetime = "nat \<times> nat \<times> nat"

datatype diretiva = Dia | Mes | Ano | Lit char

definition dia2 :: "string \<Rightarrow> (nat \<times> string) option" where
  \<comment> \<open>the alternatives of \<^verbatim>\<open>%d\<close> that take two characters\<close>
  "dia2 s =
     (case s of
        a # b # r \<Rightarrow>
          if (a = CHR ''3'' \<and> b \<in> set ''01'') \<or> (a \<in> set ''12'' \<and> eh_digito b)
             \<or> (a = CHR ''0'' \<and> b \<in> set ''123456789'')
          then Some (valor_digitos [a, b], r)
          else if a = CHR '' '' \<and> b \<in> set ''123456789'' then Some (valor_digitos [b], r)
          else None
      | _ \<Rightarrow> None)"

definition um_digito :: "string \<Rightarrow> (nat \<times> string) option" where
  \<comment> \<open>the alternative \<^verbatim>\<open>[1-9]\<close> of \<^verbatim>\<open>%d\<close> and \<^verbatim>\<open>%m\<close>\<close>
  "um_digito s =
     (case s of a # r \<Rightarrow> if a \<in> set ''123456789'' then Some (valor_digitos [a], r) else None
      | _ \<Rightarrow> None)"

definition mes2 :: "string \<Rightarrow> (nat \<times> string) option" where
  \<comment> \<open>the alternatives of \<^verbatim>\<open>%m\<close> that take two characters\<close>
  "mes2 s =
     (case s of
        a # b # r \<Rightarrow>
          if (a = CHR ''1'' \<and> b \<in> set ''012'') \<or> (a = CHR ''0'' \<and> b \<in> set ''123456789'')
          then Some (valor_digitos [a, b], r) else None
      | _ \<Rightarrow> None)"

definition ano4 :: "string \<Rightarrow> (nat \<times> string) option" where
  "ano4 s =
     (case s of
        a # b # c # d # r \<Rightarrow>
          if eh_digito a \<and> eh_digito b \<and> eh_digito c \<and> eh_digito d
          then Some (valor_digitos [a, b, c, d], r) else None
      | _ \<Rightarrow> None)"

definition senao :: "'a option \<Rightarrow> 'a option \<Rightarrow> 'a option" where
  \<comment> \<open>the first alternative that matches\<close>
  "senao p q = (case p of Some x \<Rightarrow> Some x | None \<Rightarrow> q)"

fun casar :: "diretiva list \<Rightarrow> string \<Rightarrow> datetime \<Rightarrow> (datetime \<times> string) option" where
  \<comment> \<open>the first match of the format's expression, with the fields read so far\<close>
  "casar [] s dt = Some (dt, s)"
| "casar (Lit c # ds) s dt =
     (case s of [] \<Rightarrow> None | x # xs \<Rightarrow> if x = c then casar ds xs dt else None)"
| "casar (Ano # ds) s (y, m, d) =
     (case ano4 s of Some (v, r) \<Rightarrow> casar ds r (v, m, d) | None \<Rightarrow> None)"
| "casar (Mes # ds) s (y, m, d) =
     senao (case mes2 s of Some (v, r) \<Rightarrow> casar ds r (y, v, d) | None \<Rightarrow> None)
           (case um_digito s of Some (v, r) \<Rightarrow> casar ds r (y, v, d) | None \<Rightarrow> None)"
| "casar (Dia # ds) s (y, m, d) =
     senao (case dia2 s of Some (v, r) \<Rightarrow> casar ds r (y, m, v) | None \<Rightarrow> None)
           (case um_digito s of Some (v, r) \<Rightarrow> casar ds r (y, m, v) | None \<Rightarrow> None)"

definition bissexto :: "nat \<Rightarrow> bool" where
  "bissexto y = (y mod 4 = 0 \<and> (y mod 100 \<noteq> 0 \<or> y mod 400 = 0))"

definition dias_no_mes :: "nat \<Rightarrow> nat \<Rightarrow> nat" where
  "dias_no_mes y m =
     (if m = 2 then (if bissexto y then 29 else 28)
      else if m \<in> {4, 6, 9, 11} then 30 else 31)"

definition data_valida :: "datetime \<Rightarrow> bool" where
  \<comment> \<open>the dates that exist and whose year is written on four digits\<close>
  "data_valida dt =
     (case dt of (y, m, d) \<Rightarrow>
        1 \<le> y \<and> y \<le> 9999 \<and> 1 \<le> m \<and> m \<le> 12 \<and> 1 \<le> d \<and> d \<le> dias_no_mes y m)"

definition strptime :: "string \<Rightarrow> diretiva list \<Rightarrow> datetime option" where
  \<comment> \<open>\<open>None\<close> is ValueError: no match, unconverted text, or a date that does not exist\<close>
  "strptime s fmt =
     (case casar fmt s (1900, 1, 1) of
        Some ((y, m, d), r) \<Rightarrow>
          if r = [] \<and> 1 \<le> y \<and> 1 \<le> m \<and> m \<le> 12 \<and> 1 \<le> d \<and> d \<le> dias_no_mes y m
          then Some (y, m, d) else None
      | None \<Rightarrow> None)"

definition formatos :: "diretiva list list" where
  "formatos =
     [[Dia, Lit (CHR ''/''), Mes, Lit (CHR ''/''), Ano],
      [Mes, Lit (CHR ''/''), Dia, Lit (CHR ''/''), Ano],
      [Ano, Lit (CHR ''-''), Mes, Lit (CHR ''-''), Dia],
      [Dia, Mes, Ano],
      [Ano, Lit (CHR ''/''), Mes, Lit (CHR ''/''), Dia]]"

fun tentar_formatos :: "string \<Rightarrow> diretiva list list \<Rightarrow> datetime" where
  "tentar_formatos s [] = (1900, 1, 1)"
| "tentar_formatos s (fmt # fmts) =
     (case strptime s fmt of Some dt \<Rightarrow> dt | None \<Rightarrow> tentar_formatos s fmts)"

definition parse_data :: "string \<Rightarrow> datetime" where
  "parse_data data_str = tentar_formatos (py_strip data_str) formatos"

definition strftime :: "datetime \<Rightarrow> string" where
  \<comment> \<open>\<^verbatim>\<open>dt.strftime("%d/%m/%Y")\<close> as CPython 3.11 gives it through the C library of Linux:
      day and month on two digits, the year without padding (\<^verbatim>\<open>01/01/999\<close> for the year 999)\<close>
  "strftime dt =
     (case dt of (y, m, d) \<Rightarrow> digitos_de 2 d @ ''/'' @ digitos_de 2 m @ ''/'' @ str_nat y)"

definition data_da_acao :: "acao \<Rightarrow> string" where
  \<comment> \<open>\<^verbatim>\<open>acao.get("Date") or acao.get("Data", "")\<close>\<close>
  "data_da_acao a = ou_texto (Date a) (case Data a of Some s \<Rightarrow> s | None \<Rightarrow> [])"

definition nome_ou_vazio :: "pessoa \<Rightarrow> string" where
  \<comment> \<open>\<^verbatim>\<open>p.get("Name", "")\<close>\<close>
  "nome_ou_vazio p = (case Name p of Some n \<Rightarrow> n | None \<Rightarrow> [])"

type_synonym chave_acao = "string \<times> string \<times> string list \<times> string list"

definition chave_de_acao :: "acao \<Rightarrow> chave_acao" where
  "chave_de_acao a =
     (py_lower (obter_tipo_acao a), data_da_acao a,
      sort (map nome_ou_vazio (Agents a)), sort (map nome_ou_vazio (Beneficiaries a)))"

fun acoes_unicas :: "chave_acao set \<Rightarrow> acao list \<Rightarrow> acao list" where
  \<comment> \<open>the loop of the normalizer; the first argument is \<^verbatim>\<open>conjunto_visto\<close>\<close>
  "acoes_unicas visto [] = []"
| "acoes_unicas visto (a # resto) =
     (if chave_de_acao a \<notin> visto
      then a\<lparr>Date := Some (strftime (parse_data (data_da_acao a)))\<rparr>
             # acoes_unicas (insert (chave_de_acao a) visto) resto
      else acoes_unicas visto resto)"

definition chave_ordem :: "acao \<Rightarrow> datetime \<times> string" where
  "chave_ordem x = (parse_data (data_da_acao x), py_lower (obter_tipo_acao x))"

definition normalizar_e_ordenar_acoes :: "acao list \<Rightarrow> acao list" where
  \<comment> \<open>\<^verbatim>\<open>sorted\<close> is stable, as \<^const>\<open>sort_key\<close> is\<close>
  "normalizar_e_ordenar_acoes acoes = sort_key chave_ordem (acoes_unicas {} acoes)"


section \<open>Example data\<close>

definition pessoa_ex :: "string \<Rightarrow> pyval option \<Rightarrow> pyval option \<Rightarrow> pessoa" where
  \<comment> \<open>a holder given by name only, with the percentage it transfers and the one it receives\<close>
  "pessoa_ex nome pt pr =
     \<lparr>Name = Some nome, CPF = None, Percentage_Transferred = pt, Percentage_Received = pr,
      Spouse = None\<rparr>"

definition registro_ex :: "string \<Rightarrow> rat \<Rightarrow> registro" where
  \<comment> \<open>the record that the handlers create for such a holder\<close>
  "registro_ex nome pct =
     \<lparr>Nome = Some nome, CPF_reg = nao_informado, Percentual = pct, Conjuge = None\<rparr>"

definition acao_ex :: "string \<Rightarrow> string \<Rightarrow> pessoa list \<Rightarrow> pessoa list \<Rightarrow> acao" where
  "acao_ex tipo data agentes beneficiarios =
     \<lparr>Action = Some tipo, Tipo_da_Acao = None, Date = Some data, Data = None, Agents = agentes,
      Beneficiaries = beneficiarios, Additional_Info = None\<rparr>"

section \<open>Facts about the text functions\<close>

lemma py_split_append:
  "sep \<notin> set xs \<Longrightarrow> py_split sep (xs @ sep # ys) = xs # py_split sep ys"
  by (induction xs) (auto split: list.splits)

lemma py_split_sem_sep: "sep \<notin> set xs \<Longrightarrow> py_split sep xs = [xs]"
  by (induction xs) (auto split: list.splits)

lemma valor_digitos_snoc: "valor_digitos (ds @ [c]) = 10 * valor_digitos ds + valor_digito c"
  by (simp add: valor_digitos_def)

lemma valor_digitos_zeros:
  "valor_digitos (ds @ replicate n (CHR ''0'')) = valor_digitos ds * 10 ^ n"
proof (induction n)
  case 0
  then show ?case by simp
next
  case (Suc n)
  have "valor_digitos (ds @ replicate (Suc n) (CHR ''0''))
      = valor_digitos ((ds @ replicate n (CHR ''0'')) @ [CHR ''0''])"
    by (simp add: replicate_append_same)
  also have "\<dots> = 10 * valor_digitos (ds @ replicate n (CHR ''0''))"
    by (simp only: valor_digitos_snoc) (simp add: valor_digito_def)
  finally show ?case using Suc by simp
qed

lemma sem_sublinhado_duplo_digitos: "CHR ''_'' \<notin> set s \<Longrightarrow> sem_sublinhado_duplo s"
  by (induction s rule: sem_sublinhado_duplo.induct) auto

lemma py_int_digitos:
  assumes "s \<noteq> []" "\<forall>c \<in> set s. eh_digito c" "length s \<le> 4300"
  shows "py_int s = Some (int (valor_digitos s))"
proof -
  have nesp: "\<And>c. eh_digito c \<Longrightarrow> c \<notin> set espacos_int"
    by (auto simp: eh_digito_def digitos_def espacos_int_def)
  have h: "eh_digito (hd s)" and l: "eh_digito (last s)" using assms by auto
  have d1: "dropWhile (\<lambda>c. c \<in> set espacos_int) s = s"
    using assms(1) h nesp by (cases s) auto
  have d2: "dropWhile (\<lambda>c. c \<in> set espacos_int) (rev s) = rev s"
    using assms(1) l nesp by (cases "rev s") (auto simp: last_rev[symmetric] hd_rev)
  have sg: "hd s \<noteq> CHR ''-''" "hd s \<noteq> CHR ''+''"
    using h by (auto simp: eh_digito_def digitos_def)
  have us: "CHR ''_'' \<notin> set s" using assms(2) by (auto simp: eh_digito_def digitos_def)
  have f: "filter eh_digito s = s" using assms(2) by simp
  show ?thesis
    unfolding py_int_def Let_def d1 d2 rev_rev_ident
    using assms h l sg sem_sublinhado_duplo_digitos[OF us] f by simp
qed

lemma lower_digitos_todos: "\<forall>c \<in> set ''0123456789/''. lower_char c = c"
  by (simp add: lower_char_def maiusculas_def minusculas_def)

lemma lower_digito: "eh_digito c \<or> c = CHR ''/'' \<Longrightarrow> lower_char c = c"
  using lower_digitos_todos by (auto simp: eh_digito_def digitos_def)

lemma py_strip_id:
  assumes "s \<noteq> []" "hd s \<notin> set espacos" "last s \<notin> set espacos"
  shows "py_strip s = s"
proof -
  have d1: "dropWhile (\<lambda>c. c \<in> set espacos) s = s"
    using assms(1,2) by (cases s) auto
  have d2: "dropWhile (\<lambda>c. c \<in> set espacos) (rev s) = rev s"
    using assms(1,3) by (cases "rev s") (auto simp: hd_rev)
  show ?thesis by (simp add: py_strip_def d1 d2)
qed

lemma digito_nao_espaco: "eh_digito c \<Longrightarrow> c \<notin> set espacos"
  by (auto simp: eh_digito_def digitos_def espacos_def)

lemma parse_fracao_digitos:
  assumes ds: "ds \<noteq> []" "\<forall>c \<in> set ds. eh_digito c" "length ds \<le> 4300"
    and es: "es \<noteq> []" "\<forall>c \<in> set es. eh_digito c" "length es \<le> 4300"
  shows "parse_percentual (PStr (ds @ ''/'' @ es))
         = float_de_fracao (int (valor_digitos ds)) (int (valor_digitos es))"
proof -
  let ?txt = "ds @ CHR ''/'' # es"
  have hd: "eh_digito (hd ?txt)" using ds by (cases ds) auto
  have lst: "eh_digito (last ?txt)" using es by auto
  have strip: "py_strip ?txt = ?txt"
    using hd lst ds by (intro py_strip_id digito_nao_espaco) auto
  have low: "py_lower ?txt = ?txt"
    unfolding py_lower_def using ds es
    by (intro map_idI) (auto intro: lower_digito)
  have nsent: "?txt \<notin> set sentinelas"
    using hd ds by (cases ds) (auto simp: sentinelas_def a_til_def eh_digito_def digitos_def)
  have nbar: "CHR ''/'' \<notin> set ds" "CHR ''/'' \<notin> set es"
    using ds es by (auto simp: eh_digito_def digitos_def)
  have split: "py_split (CHR ''/'') ?txt = [ds, es]"
    using py_split_append[OF nbar(1), of es] py_split_sem_sep[OF nbar(2)] by simp
  have eq: "ds @ ''/'' @ es = ?txt" by simp
  have ne: "?txt \<noteq> []" using ds by simp
  have bar: "CHR ''/'' \<in> set ?txt" by simp
  show ?thesis
    unfolding eq parse_percentual_def pyval.case truthy_def py_str_def sum.case strip low Let_def
    using nsent ne bar by (simp add: split py_int_digitos[OF ds] py_int_digitos[OF es])
qed

lemmas defs_texto = truthy_def py_str_def py_strip_def espacos_def py_lower_def lower_char_def
  maiusculas_def minusculas_def sentinelas_def a_til_def py_float_def limpar_def eh_digito_def
  digitos_def valor_digitos_def valor_digito_def

lemma parse_fracao_um_digito:
  assumes "eh_digito a" "eh_digito b"
  shows "parse_percentual (PStr [a, CHR ''/'', b])
         = float_de_fracao (int (valor_digito a)) (int (valor_digito b))"
  using parse_fracao_digitos[of "[a]" "[b]"] assms by (simp add: valor_digitos_def)

section \<open>The percentage parser: results\<close>

text \<open>
  C7 (failing input). The parser catches ValueError and ZeroDivisionError only. The fraction
  whose numerator is 1 followed by 309 zeros and whose denominator is 1 is read by \<^verbatim>\<open>int\<close>
  without error, and the conversion of the quotient to a float raises OverflowError, which
  leaves \<^verbatim>\<open>parse_percentual\<close> uncaught.
\<close>

theorem parse_percentual_estouro:
  "parse_percentual (PStr ((CHR ''1'' # replicate 309 (CHR ''0'')) @ ''/'' @ ''1''))
   = Inl OverflowError"
proof -
  have v: "valor_digitos (''1'' @ replicate 309 (CHR ''0'')) = 1 * 10 ^ 309"
    unfolding valor_digitos_zeros by (simp add: valor_digitos_def valor_digito_def)
  have v2: "valor_digitos (CHR ''1'' # replicate 309 (CHR ''0'')) = 10 ^ 309"
    using v by simp
  have v1: "valor_digitos ''1'' = 1"
    by (simp add: valor_digitos_def valor_digito_def)
  have ov: "float_de_fracao (10 ^ 309) 1 = Inl OverflowError"
    by (simp add: float_de_fracao_def limite_float_def)
  have dg: "\<forall>c \<in> set (CHR ''1'' # replicate 309 (CHR ''0'')). eh_digito c"
    by (auto simp: eh_digito_def digitos_def)
  have "parse_percentual (PStr ((CHR ''1'' # replicate 309 (CHR ''0'')) @ ''/'' @ ''1''))
       = float_de_fracao (int (valor_digitos (CHR ''1'' # replicate 309 (CHR ''0''))))
           (int (valor_digitos ''1''))"
    by (rule parse_fracao_digitos) (use dg in \<open>auto simp: eh_digito_def digitos_def\<close>)
  then show ?thesis unfolding v1 v2 using ov by simp
qed

theorem parse_percentual_estouro_witness:
  "parse_percentual (PStr ((CHR ''1'' # replicate 309 (CHR ''0'')) @ ''/'' @ ''1'')) \<noteq> Inr None"
  using parse_percentual_estouro by simp

text \<open>
  C6 (failing inputs). The docstring of \<^verbatim>\<open>parse_percentual\<close> promises a number between 0
  and 100, a value of at most 1 being multiplied by 100. The text "3/2" comes back as 150,
  above 100: the branch of the fractions multiplies by 100 whatever the size of the
  quotient. The float 0.5 comes back as 0.5: the first line of the function returns a
  float as it is, without the multiplication that the text "0.5" gets.
\<close>

theorem parse_percentual_fora_da_regra:
  "parse_percentual (PStr ''3/2'') = Inr (Some (Finito 150))
   \<and> parse_percentual (PStr ''3/2'') \<noteq> Inr (Some (Finito (3 / 2)))
   \<and> parse_percentual (PFloat (1 / 2)) = Inr (Some (Finito (1 / 2)))
   \<and> parse_percentual (PFloat (1 / 2)) \<noteq> Inr (Some (Finito 50))
   \<and> parse_percentual (PStr ''0.5'') = Inr (Some (Finito 50))"
proof -
  have f: "float_de_fracao 3 2 = Inr (Some (Finito 150))"
    by code_simp
  have "parse_percentual (PStr ''3/2'') = Inr (Some (Finito 150))"
    using parse_fracao_um_digito[of "CHR ''3''" "CHR ''2''"] f
    by (simp add: eh_digito_def digitos_def valor_digito_def)
  moreover have "parse_percentual (PFloat (1 / 2)) = Inr (Some (Finito (1 / 2)))"
    by (simp add: parse_percentual_def)
  moreover have "parse_percentual (PStr ''0.5'') = Inr (Some (Finito 50))"
    by code_simp
  ultimately show ?thesis by simp
qed

theorem parse_percentual_fora_da_regra_witness:
  "parse_percentual (PStr ''3/2'') \<noteq> parse_percentual (PStr ''1.5'')
   \<and> parse_percentual (PFloat (1 / 2)) \<noteq> parse_percentual (PStr ''0.5'')"
proof -
  have "parse_percentual (PStr ''1.5'') = Inr (Some (Finito (3 / 2)))"
    by code_simp
  then show ?thesis using parse_percentual_fora_da_regra by simp
qed

section \<open>Facts about the ledger\<close>




lemma total_delete_none:
  "map_of props k = None \<Longrightarrow> AList.delete k props = props"
  by (induction props) (auto simp: AList.delete_eq split: if_splits)






lemma map_of_None_keys: "map_of props k = None \<longleftrightarrow> k \<notin> fst ` set props"
  by (simp add: map_of_eq_None_iff)



lemma obito_sem_beneficiarios:
  "obito_agentes props agentes [] = Inr (filter (\<lambda>kv. fst kv \<notin> chave_proprietario ` set agentes) props)"
proof (induction agentes arbitrary: props)
  case Nil
  then show ?case by simp
next
  case (Cons a agentes)
  have f: "filter (\<lambda>kv. fst kv \<notin> chave_proprietario ` set agentes) (AList.delete (chave_proprietario a) props)
         = filter (\<lambda>kv. fst kv \<notin> chave_proprietario ` set (a # agentes)) props"
    by (induction props) (auto simp: AList.delete_eq)
  show ?case
  proof (cases "map_of props (chave_proprietario a)")
    case None
    then have "AList.delete (chave_proprietario a) props = props" by (rule total_delete_none)
    then show ?thesis using None Cons.IH[of props] f by simp
  next
    case (Some r)
    then show ?thesis using Cons.IH[of "AList.delete (chave_proprietario a) props"] f by simp
  qed
qed

lemma total_filter_split:
  "total props = total (filter P props) + total (filter (\<lambda>kv. \<not> P kv) props)"
  by (induction props) (auto simp: total_def)












lemma set_update_subset: "set (AList.update k v al) \<subseteq> insert (k, v) (set al)"
  by (induction al) auto

lemma inicializar_aux_keys:
  "fst ` set (foldl (\<lambda>props agente. AList.update (chave_proprietario agente) (novo_registro agente q) props) acc ags)
   = fst ` set acc \<union> chave_proprietario ` set ags"
  by (induction ags arbitrary: acc) (auto simp: dom_update)

lemma inicializar_aux_distinct:
  "distinct (map fst acc) \<Longrightarrow>
   distinct (map fst (foldl (\<lambda>props agente. AList.update (chave_proprietario agente) (novo_registro agente q) props) acc ags))"
  by (induction ags arbitrary: acc) (auto simp: distinct_update)

lemma inicializar_aux_vals:
  "\<forall>kv \<in> set acc. Percentual (snd kv) = q \<Longrightarrow>
   \<forall>kv \<in> set (foldl (\<lambda>props agente. AList.update (chave_proprietario agente) (novo_registro agente q) props) acc ags).
     Percentual (snd kv) = q"
proof (induction ags arbitrary: acc)
  case Nil
  then show ?case by simp
next
  case (Cons a ags)
  have "\<forall>kv \<in> set (AList.update (chave_proprietario a) (novo_registro a q) acc). Percentual (snd kv) = q"
    using Cons.prems set_update_subset[of "chave_proprietario a" "novo_registro a q" acc]
    by (auto simp: novo_registro_def)
  then show ?case using Cons.IH by simp
qed




lemma update_preserva:
  assumes "\<forall>kv \<in> set al. P (snd kv)" "P v"
  shows "\<forall>kv \<in> set (AList.update k v al). P (snd kv)"
proof
  fix kv assume "kv \<in> set (AList.update k v al)"
  then have "kv = (k, v) \<or> kv \<in> set al" using set_update_subset[of k v al] by blast
  then show "P (snd kv)" using assms by auto
qed

lemma alteracao_zero:
  "\<forall>kv \<in> set props. Percentual (snd kv) = 0 \<Longrightarrow>
   \<forall>kv \<in> set (processar_alteracao_estado_civil props agentes). Percentual (snd kv) = 0"
proof (induction agentes arbitrary: props)
  case Nil
  then show ?case by simp
next
  case (Cons a agentes)
  let ?k = "chave_proprietario a"
  show ?case
  proof (cases "map_of props ?k")
    case None
    let ?p = "AList.update ?k ((novo_registro a 0)\<lparr>Conjuge := processar_conjuge (Spouse a)\<rparr>) props"
    have "\<forall>kv \<in> set ?p. Percentual (snd kv) = 0"
      by (rule update_preserva[OF Cons.prems]) (simp add: novo_registro_def)
    then show ?thesis using None Cons.IH[of ?p] by (simp add: Let_def)
  next
    case (Some r)
    have "(?k, r) \<in> set props" using Some by (rule map_of_SomeD)
    then have r0: "Percentual r = 0" using Cons.prems by force
    let ?p = "if Conjuge r = None then AList.update ?k (r\<lparr>Conjuge := processar_conjuge (Spouse a)\<rparr>) props else props"
    have "\<forall>kv \<in> set (AList.update ?k (r\<lparr>Conjuge := processar_conjuge (Spouse a)\<rparr>) props).
            Percentual (snd kv) = 0"
      by (rule update_preserva[OF Cons.prems]) (simp add: r0)
    then have "\<forall>kv \<in> set ?p. Percentual (snd kv) = 0"
      using Cons.prems by simp
    then show ?thesis using Some Cons.IH[of ?p] by (simp add: Let_def)
  qed
qed

lemma alteracao_vazio_podado: "podar (processar_alteracao_estado_civil [] agentes) = []"
  using alteracao_zero[of "[]" agentes] by (auto simp: podar_def filter_empty_conv)

lemma podar_vazio: "podar [] = []"
  by (simp add: podar_def)

lemma obito_vazio: "processar_obito [] agentes bens = Inr []"
  unfolding processar_obito_def by (induction agentes) simp_all

lemma remover_vazio: "remover_agentes [] tr agentes = ([], tr)"
  by (induction agentes) simp_all

lemma partilha_vazio:
  "processar_partilha [] agentes bens
   = (case parse_recebidos bens of
        Inl e \<Rightarrow> Inl e
      | Inr pcts \<Rightarrow> creditar [] (zip bens (distribuir_partilha 0 pcts)))"
  by (simp add: processar_partilha_def remover_vazio)

lemma tipo_sem_agentes: "obter_tipo_acao (a\<lparr>Agents := []\<rparr>) = obter_tipo_acao a"
  by (simp add: obter_tipo_acao_def)

lemma processar_acao_resto:
  assumes "\<not> contem t_alteracao_estado_civil (py_lower (obter_tipo_acao a))"
    and "\<not> (contem t_alteracao_nome (py_lower (obter_tipo_acao a))
           \<or> contem ''casamento'' (py_lower (obter_tipo_acao a)))"
    and "\<not> (contem ''venda'' (py_lower (obter_tipo_acao a))
           \<or> contem ''sale'' (py_lower (obter_tipo_acao a))
           \<or> contem ''venda nua propriedade'' (py_lower (obter_tipo_acao a)))"
    and "\<not> (contem t_doacao (py_lower (obter_tipo_acao a))
           \<or> contem ''donation'' (py_lower (obter_tipo_acao a)))"
  shows "processar_acao (props, usu) a
        = (let tipo = py_lower (obter_tipo_acao a) in
           if contem t_obito tipo \<or> contem ''falecimento'' tipo \<or> contem ''death'' tipo then
             (case processar_obito props (Agents a) (Beneficiaries a) of
                Inl e \<Rightarrow> Inl e | Inr p \<Rightarrow> Inr (podar p, usu))
           else if contem ''partilha'' tipo \<or> contem ''share'' tipo then
             (case processar_partilha props (Agents a) (Beneficiaries a) of
                Inl e \<Rightarrow> Inl e | Inr p \<Rightarrow> Inr (podar p, usu))
           else if contem ''usufruto'' tipo \<or> contem ''usufruct'' tipo then
             (case processar_usufruto usu (Beneficiaries a) of
                Inl e \<Rightarrow> Inl e | Inr u \<Rightarrow> Inr (podar props, u))
           else Inr (podar props, usu))"
  using assms unfolding processar_acao_def Let_def by simp

lemma sem_bootstrap:
  assumes "\<not> chega_a_transferencia a"
  shows "processar_acao ([], usu) a = processar_acao ([], usu) (a\<lparr>Agents := []\<rparr>)"
proof -
  let ?t = "py_lower (obter_tipo_acao a)"
  consider (civil) "contem t_alteracao_estado_civil ?t"
    | (nome) "\<not> contem t_alteracao_estado_civil ?t"
        "contem t_alteracao_nome ?t \<or> contem ''casamento'' ?t"
    | (resto) "\<not> contem t_alteracao_estado_civil ?t"
        "\<not> (contem t_alteracao_nome ?t \<or> contem ''casamento'' ?t)"
        "\<not> (contem ''venda'' ?t \<or> contem ''sale'' ?t \<or> contem ''venda nua propriedade'' ?t)"
        "\<not> (contem t_doacao ?t \<or> contem ''donation'' ?t)"
    using assms unfolding chega_a_transferencia_def Let_def by blast
  then show ?thesis
  proof cases
    case civil
    then show ?thesis
      unfolding processar_acao_def tipo_sem_agentes Let_def
      by (simp add: alteracao_vazio_podado podar_vazio)
  next
    case nome
    then show ?thesis
      unfolding processar_acao_def tipo_sem_agentes Let_def
      by simp
  next
    case resto
    have e1: "processar_acao ([], usu) a
        = (let tipo = py_lower (obter_tipo_acao a) in
           if contem t_obito tipo \<or> contem ''falecimento'' tipo \<or> contem ''death'' tipo then
             (case processar_obito [] (Agents a) (Beneficiaries a) of
                Inl e \<Rightarrow> Inl e | Inr p \<Rightarrow> Inr (podar p, usu))
           else if contem ''partilha'' tipo \<or> contem ''share'' tipo then
             (case processar_partilha [] (Agents a) (Beneficiaries a) of
                Inl e \<Rightarrow> Inl e | Inr p \<Rightarrow> Inr (podar p, usu))
           else if contem ''usufruto'' tipo \<or> contem ''usufruct'' tipo then
             (case processar_usufruto usu (Beneficiaries a) of
                Inl e \<Rightarrow> Inl e | Inr u \<Rightarrow> Inr (podar [], u))
           else Inr (podar [], usu))"
      by (rule processar_acao_resto[OF resto])
    have e2: "processar_acao ([], usu) (a\<lparr>Agents := []\<rparr>)
        = (let tipo = py_lower (obter_tipo_acao a) in
           if contem t_obito tipo \<or> contem ''falecimento'' tipo \<or> contem ''death'' tipo then
             (case processar_obito [] [] (Beneficiaries a) of
                Inl e \<Rightarrow> Inl e | Inr p \<Rightarrow> Inr (podar p, usu))
           else if contem ''partilha'' tipo \<or> contem ''share'' tipo then
             (case processar_partilha [] [] (Beneficiaries a) of
                Inl e \<Rightarrow> Inl e | Inr p \<Rightarrow> Inr (podar p, usu))
           else if contem ''usufruto'' tipo \<or> contem ''usufruct'' tipo then
             (case processar_usufruto usu (Beneficiaries a) of
                Inl e \<Rightarrow> Inl e | Inr u \<Rightarrow> Inr (podar [], u))
           else Inr (podar [], usu))"
    proof -
      have f: "Agents (a\<lparr>Agents := []\<rparr>) = []"
        "Beneficiaries (a\<lparr>Agents := []\<rparr>) = Beneficiaries a"
        by simp_all
      have r: "\<not> contem t_alteracao_estado_civil (py_lower (obter_tipo_acao (a\<lparr>Agents := []\<rparr>)))"
        "\<not> (contem t_alteracao_nome (py_lower (obter_tipo_acao (a\<lparr>Agents := []\<rparr>)))
           \<or> contem ''casamento'' (py_lower (obter_tipo_acao (a\<lparr>Agents := []\<rparr>))))"
        "\<not> (contem ''venda'' (py_lower (obter_tipo_acao (a\<lparr>Agents := []\<rparr>)))
           \<or> contem ''sale'' (py_lower (obter_tipo_acao (a\<lparr>Agents := []\<rparr>)))
           \<or> contem ''venda nua propriedade'' (py_lower (obter_tipo_acao (a\<lparr>Agents := []\<rparr>))))"
        "\<not> (contem t_doacao (py_lower (obter_tipo_acao (a\<lparr>Agents := []\<rparr>)))
           \<or> contem ''donation'' (py_lower (obter_tipo_acao (a\<lparr>Agents := []\<rparr>))))"
        unfolding tipo_sem_agentes using resto by blast+
      show ?thesis
        using processar_acao_resto[OF r, of "[]" usu] unfolding tipo_sem_agentes f .
    qed
    show ?thesis
      unfolding e1 e2 obito_vazio partilha_vazio by (rule refl)
  qed
qed

lemma com_bootstrap:
  assumes "chega_a_transferencia a" "Agents a \<noteq> []"
  shows "processar_acao ([], usu) a = processar_acao (inicializar (Agents a), usu) a"
proof -
  have k: "fst ` set (inicializar (Agents a)) = chave_proprietario ` set (Agents a)"
    unfolding inicializar_def by (simp add: inicializar_aux_keys)
  then have ne: "inicializar (Agents a) \<noteq> []" using assms(2) by auto
  have "atualizar_proprietarios_parcial [] (Agents a) (Beneficiaries a)
         = atualizar_proprietarios_parcial (inicializar (Agents a)) (Agents a) (Beneficiaries a)"
    using assms(2) ne by (simp add: atualizar_proprietarios_parcial_def)
  then show ?thesis
    using assms(1) unfolding processar_acao_def chega_a_transferencia_def Let_def
    by auto
qed

section \<open>Facts about the dispatcher and the normalizer\<close>

lemma contem_iff: "contem s t \<longleftrightarrow> (\<exists>ps ss. t = ps @ s @ ss)"
proof (induction t)
  case Nil
  then show ?case by auto
next
  case (Cons c cs)
  show ?case
  proof
    assume "contem s (c # cs)"
    then consider "take (length s) (c # cs) = s" | "contem s cs" by auto
    then show "\<exists>ps ss. c # cs = ps @ s @ ss"
    proof cases
      case 1
      then have "c # cs = [] @ s @ drop (length s) (c # cs)"
        by (metis append_Nil append_take_drop_id)
      then show ?thesis by blast
    next
      case 2
      then obtain ps ss where "cs = ps @ s @ ss" using Cons.IH by blast
      then have "c # cs = (c # ps) @ s @ ss" by simp
      then show ?thesis by blast
    qed
  next
    assume "\<exists>ps ss. c # cs = ps @ s @ ss"
    then obtain ps ss where e: "c # cs = ps @ s @ ss" by blast
    show "contem s (c # cs)"
    proof (cases ps)
      case Nil
      then have "take (length s) (c # cs) = s" using e by simp
      then show ?thesis by simp
    next
      case (Cons p ps')
      then have "cs = ps' @ s @ ss" using e by simp
      then have "contem s cs" using Cons.IH by blast
      then show ?thesis by simp
    qed
  qed
qed

lemma cancelamento_contem_usufruto:
  "contem ''cancelamento de usufruto'' t \<Longrightarrow> contem ''usufruto'' t"
proof -
  assume "contem ''cancelamento de usufruto'' t"
  then obtain ps ss where "t = ps @ ''cancelamento de usufruto'' @ ss" using contem_iff by blast
  then have "t = (ps @ ''cancelamento de '') @ ''usufruto'' @ ss" by simp
  then show ?thesis using contem_iff by blast
qed

lemma acoes_unicas_id:
  assumes "distinct (map chave_de_acao acoes)"
    and "chave_de_acao ` set acoes \<inter> visto = {}"
    and "\<forall>a \<in> set acoes. Date a = Some (strftime (parse_data (data_da_acao a)))"
  shows "acoes_unicas visto acoes = acoes"
  using assms
proof (induction acoes arbitrary: visto)
  case Nil
  then show ?case by simp
next
  case (Cons a acoes)
  have nv: "chave_de_acao a \<notin> visto" using Cons.prems(2) by auto
  have d: "a\<lparr>Date := Some (strftime (parse_data (data_da_acao a)))\<rparr> = a"
    using Cons.prems(3) by simp
  have "chave_de_acao ` set acoes \<inter> insert (chave_de_acao a) visto = {}"
    using Cons.prems(1,2) by auto
  then have "acoes_unicas (insert (chave_de_acao a) visto) acoes = acoes"
    using Cons.IH Cons.prems(1,3) by simp
  then show ?case using nv d by simp
qed

section \<open>Facts about dates\<close>

lemma digitos_nth: "k < 10 \<Longrightarrow> eh_digito (digitos ! k) \<and> valor_digito (digitos ! k) = k"
proof -
  have "\<forall>k \<in> set [0..<10]. eh_digito (digitos ! k) \<and> valor_digito (digitos ! k) = k"
    by (simp add: upt_rec eh_digito_def digitos_def valor_digito_def)
  then show "k < 10 \<Longrightarrow> eh_digito (digitos ! k) \<and> valor_digito (digitos ! k) = k" by simp
qed

lemma valor_digito_le: "eh_digito c \<Longrightarrow> valor_digito c \<le> 9"
  by (auto simp: eh_digito_def digitos_def valor_digito_def)

lemma dia2_volta: "1 \<le> d \<Longrightarrow> d \<le> 31 \<Longrightarrow> dia2 (digitos_de 2 d @ r) = Some (d, r)"
proof -
  have "\<forall>d \<in> set [1..<32]. dia2 (digitos_de 2 d @ r) = Some (d, r)"
    by (simp add: upt_rec numeral_2_eq_2 dia2_def eh_digito_def digitos_def valor_digitos_def valor_digito_def)
  then show "1 \<le> d \<Longrightarrow> d \<le> 31 \<Longrightarrow> dia2 (digitos_de 2 d @ r) = Some (d, r)" by simp
qed

lemma mes2_volta: "1 \<le> m \<Longrightarrow> m \<le> 12 \<Longrightarrow> mes2 (digitos_de 2 m @ r) = Some (m, r)"
proof -
  have "\<forall>m \<in> set [1..<13]. mes2 (digitos_de 2 m @ r) = Some (m, r)"
    by (simp add: upt_rec numeral_2_eq_2 mes2_def eh_digito_def digitos_def valor_digitos_def valor_digito_def)
  then show "1 \<le> m \<Longrightarrow> m \<le> 12 \<Longrightarrow> mes2 (digitos_de 2 m @ r) = Some (m, r)" by simp
qed

lemma decompor4:
  fixes y q1 q2 q3 :: nat
  assumes "q1 = y div 10" "q2 = q1 div 10" "q3 = q2 div 10" "q3 < 10"
  shows "1000 * (q3 mod 10) + 100 * (q2 mod 10) + 10 * (q1 mod 10) + y mod 10 = y"
proof -
  have a: "y = 10 * q1 + y mod 10" unfolding assms(1) by simp
  have b: "q1 = 10 * q2 + q1 mod 10" unfolding assms(2) by simp
  have c: "q2 = 10 * q3 + q2 mod 10" unfolding assms(3) by simp
  have d: "q3 mod 10 = q3" using assms(4) by simp
  show ?thesis using a b c d by linarith
qed

lemma digitos_de_2: "digitos_de 2 n = [digitos ! (n div 10 mod 10), digitos ! (n mod 10)]"
proof -
  have "digitos_de (Suc (Suc 0)) n = [digitos ! (n div 10 mod 10), digitos ! (n mod 10)]" by simp
  then show ?thesis by (simp add: numeral_2_eq_2)
qed

lemma digitos_de_4:
  "digitos_de 4 n = [digitos ! (n div 10 div 10 div 10 mod 10), digitos ! (n div 10 div 10 mod 10),
                     digitos ! (n div 10 mod 10), digitos ! (n mod 10)]"
proof -
  have "digitos_de (Suc (Suc (Suc (Suc 0)))) n
      = [digitos ! (n div 10 div 10 div 10 mod 10), digitos ! (n div 10 div 10 mod 10),
         digitos ! (n div 10 mod 10), digitos ! (n mod 10)]" by simp
  moreover have "(4::nat) = Suc (Suc (Suc (Suc 0)))" by simp
  ultimately show ?thesis by metis
qed

lemma ano4_digitos:
  assumes "a < 10" "b < 10" "c < 10" "e < 10"
  shows "ano4 ([digitos ! a, digitos ! b, digitos ! c, digitos ! e] @ r)
         = Some (1000 * a + 100 * b + 10 * c + e, r)"
  using digitos_nth[OF assms(1)] digitos_nth[OF assms(2)] digitos_nth[OF assms(3)]
    digitos_nth[OF assms(4)]
  by (simp add: ano4_def valor_digitos_def)

lemma milhar_menor: "(y::nat) \<le> 9999 \<Longrightarrow> y div 10 div 10 div 10 < 10"
  by (simp add: div_mult2_eq[symmetric])

lemma ano4_volta: assumes "y \<le> 9999" shows "ano4 (digitos_de 4 y @ r) = Some (y, r)"
proof -
  have m: "\<And>n::nat. n mod 10 < 10" by simp
  have e: "1000 * (y div 10 div 10 div 10 mod 10) + 100 * (y div 10 div 10 mod 10)
           + 10 * (y div 10 mod 10) + y mod 10 = y"
    by (rule decompor4[OF refl refl refl milhar_menor[OF assms]])
  have "ano4 (digitos_de 4 y @ r)
        = Some (1000 * (y div 10 div 10 div 10 mod 10) + 100 * (y div 10 div 10 mod 10)
                + 10 * (y div 10 mod 10) + y mod 10, r)"
    unfolding digitos_de_4 by (rule ano4_digitos[OF m m m m])
  then show ?thesis by (simp only: e)
qed

lemma num_digitos_4:
  assumes "4 \<le> k" "1000 \<le> n" "n \<le> 9999"
  shows "num_digitos k n = 4"
proof -
  have k: "k = Suc (Suc (Suc (Suc (k - 4))))" using assms(1) by arith
  have a: "\<not> n < 10" using assms(2) by simp
  have b: "\<not> n div 10 < 10" using assms(2) by arith
  have c: "\<not> n div 10 div 10 < 10" using assms(2) by arith
  have d: "n div 10 div 10 div 10 < 10" using assms(3) by arith
  have e: "num_digitos (Suc (Suc (Suc (Suc (k - 4))))) n = 4"
    using a b c d by (simp only: num_digitos.simps if_False if_True)
  show ?thesis by (subst k) (rule e)
qed

lemma str_nat_4: "1000 \<le> y \<Longrightarrow> y \<le> 9999 \<Longrightarrow> str_nat y = digitos_de 4 y"
  unfolding str_nat_def by (subst num_digitos_4) simp_all

lemma parse_data_strftime:
  assumes "data_valida dt" "1000 \<le> fst dt"
  shows "parse_data (strftime dt) = dt"
proof -
  obtain y m d where dt: "dt = (y, m, d)" by (cases dt) auto
  have v: "1 \<le> y" "y \<le> 9999" "1 \<le> m" "m \<le> 12" "1 \<le> d" "d \<le> dias_no_mes y m"
    using assms(1) by (simp_all add: data_valida_def dt)
  have y4: "str_nat y = digitos_de 4 y"
    using assms(2) v(2) by (intro str_nat_4) (simp_all add: dt)
  have d31: "d \<le> 31" using v(6) by (auto simp: dias_no_mes_def split: if_splits)
  let ?s = "digitos_de 2 d @ ''/'' @ digitos_de 2 m @ ''/'' @ digitos_de 4 y"
  have s: "strftime dt = ?s" by (simp add: strftime_def dt y4)
  have hd: "hd ?s = digitos ! (d div 10 mod 10)" by (simp add: digitos_de_2)
  have la: "last ?s = digitos ! (y mod 10)" by (simp add: digitos_de_4)
  have h1: "hd ?s \<notin> set espacos"
    unfolding hd by (intro digito_nao_espaco) (simp add: digitos_nth)
  have h2: "last ?s \<notin> set espacos"
    unfolding la by (intro digito_nao_espaco) (simp add: digitos_nth)
  have ne: "?s \<noteq> []" by (simp add: digitos_de_2)
  have strip: "py_strip ?s = ?s"
    by (rule py_strip_id[OF ne h1 h2])
  have a4: "ano4 (digitos_de 4 y) = Some (y, [])" using ano4_volta[OF v(2), of "[]"] by simp
  have c: "casar [Dia, Lit (CHR ''/''), Mes, Lit (CHR ''/''), Ano] ?s (1900, 1, 1) = Some ((y, m, d), [])"
    using dia2_volta[OF v(5) d31] mes2_volta[OF v(3,4)] a4
    by (simp add: senao_def)
  have "strptime ?s [Dia, Lit (CHR ''/''), Mes, Lit (CHR ''/''), Ano] = Some (y, m, d)"
    unfolding strptime_def c using v by simp
  then show ?thesis
    unfolding parse_data_def s strip formatos_def tentar_formatos.simps by (simp add: dt)
qed

lemma ano4_limite: "ano4 s = Some (v, r) \<Longrightarrow> v \<le> 9999"
  unfolding ano4_def
  by (auto simp: valor_digitos_def split: list.splits if_splits dest!: valor_digito_le)

lemma casar_ano:
  "casar fmt s dt0 = Some ((y, m, d), r) \<Longrightarrow> fst dt0 \<le> 9999 \<Longrightarrow> y \<le> 9999"
proof (induction fmt s dt0 rule: casar.induct)
  case (1 s dt)
  then show ?case by auto
next
  case (2 c ds s dt)
  then show ?case by (auto split: list.splits if_splits)
next
  case (3 ds s y0 m0 d0)
  then show ?case by (auto split: option.splits dest: ano4_limite)
next
  case (4 ds s y0 m0 d0)
  then show ?case by (auto simp: senao_def split: option.splits)
next
  case (5 ds s y0 m0 d0)
  then show ?case by (auto simp: senao_def split: option.splits)
qed

lemma strptime_valida: "strptime s fmt = Some dt \<Longrightarrow> data_valida dt"
  unfolding strptime_def data_valida_def
  by (auto split: option.splits prod.splits if_splits dest!: casar_ano)

lemma parse_data_valida: "data_valida (parse_data s)"
proof -
  have "data_valida (tentar_formatos t fmts)" for t fmts
  proof (induction fmts)
    case Nil
    then show ?case by (simp add: data_valida_def dias_no_mes_def)
  next
    case (Cons f fmts)
    then show ?case by (auto split: option.splits dest: strptime_valida)
  qed
  then show ?thesis by (simp add: parse_data_def)
qed

lemma strftime_nao_vazio: "strftime dt \<noteq> []"
  by (cases dt) (simp add: strftime_def)

lemma strftime_canonico:
  "1000 \<le> fst (parse_data s) \<Longrightarrow>
   strftime (parse_data (strftime (parse_data s))) = strftime (parse_data s)"
  using parse_data_strftime[OF parse_data_valida] by simp

lemma acoes_unicas_canonicas:
  assumes "\<forall>a \<in> set acoes. 1000 \<le> fst (parse_data (data_da_acao a))"
  shows "\<forall>a \<in> set (acoes_unicas visto acoes).
           Date a = Some (strftime (parse_data (data_da_acao a)))"
  using assms
proof (induction acoes arbitrary: visto)
  case Nil
  then show ?case by simp
next
  case (Cons a acoes)
  let ?c = "strftime (parse_data (data_da_acao a))"
  have y: "1000 \<le> fst (parse_data (data_da_acao a))" using Cons.prems by simp
  have "data_da_acao (a\<lparr>Date := Some ?c\<rparr>) = ?c"
    using strftime_nao_vazio[of "parse_data (data_da_acao a)"] by (simp add: data_da_acao_def ou_texto_def)
  then have "Date (a\<lparr>Date := Some ?c\<rparr>) = Some (strftime (parse_data (data_da_acao (a\<lparr>Date := Some ?c\<rparr>))))"
    using strftime_canonico[OF y] by simp
  moreover have "\<forall>b \<in> set (acoes_unicas v acoes).
           Date b = Some (strftime (parse_data (data_da_acao b)))" for v
    using Cons.IH Cons.prems by simp
  ultimately show ?case by auto
qed

lemma normalizar_id:
  assumes "sorted (map chave_ordem acoes)"
    and "distinct (map chave_de_acao acoes)"
    and "\<forall>a \<in> set acoes. Date a = Some (strftime (parse_data (data_da_acao a)))"
  shows "normalizar_e_ordenar_acoes acoes = acoes"
proof -
  have "acoes_unicas {} acoes = acoes"
    using acoes_unicas_id[OF assms(2) _ assms(3)] by simp
  then show ?thesis
    using assms(1) by (simp add: normalizar_e_ordenar_acoes_def sort_key_id_if_sorted)
qed

lemma normalizar_ordenada: "sorted (map chave_ordem (normalizar_e_ordenar_acoes lista))"
  by (simp add: normalizar_e_ordenar_acoes_def)

lemma normalizar_canonica:
  assumes "\<forall>a \<in> set lista. 1000 \<le> fst (parse_data (data_da_acao a))"
  shows "\<forall>a \<in> set (normalizar_e_ordenar_acoes lista).
           Date a = Some (strftime (parse_data (data_da_acao a)))"
  using acoes_unicas_canonicas[OF assms, of "{}"] by (simp add: normalizar_e_ordenar_acoes_def)

section \<open>Transfer: results\<close>

text \<open>
  C1 (failing input). On the ledger where Ana holds 100%, the sale of 50% by Ana to Xavier,
  who declares no received percentage, debits 50 from Ana and credits 100 to Xavier: the
  branch for "no beneficiary declares" hands out 100 / n, not the amount debited.
\<close>

theorem venda_metade_sem_declaracao:
  "atualizar_proprietarios_parcial [(''ANA'', registro_ex ''Ana'' 100)]
     [pessoa_ex ''Ana'' (Some (PStr ''50'')) None] [pessoa_ex ''Xavier'' None None]
   = Inr [(''ANA'', registro_ex ''Ana'' 50), (''XAVIER'', registro_ex ''Xavier'' 100)]"
  by code_simp

theorem venda_metade_sem_declaracao_witness:
  "atualizar_proprietarios_parcial [(''ANA'', registro_ex ''Ana'' 100)]
     [pessoa_ex ''Ana'' (Some (PStr ''50'')) None] [pessoa_ex ''Xavier'' None None]
   \<noteq> Inr [(''ANA'', registro_ex ''Ana'' 50), (''XAVIER'', registro_ex ''Xavier'' 50)]"
  using venda_metade_sem_declaracao by (simp add: registro_ex_def)

text \<open>
  C2 (failing input). With 50 debited from the agents, two beneficiaries that declare nothing
  are given 50 each, not 25; and a beneficiary that declares 80 beside one that declares
  nothing is given 80, the other 0: nothing is rescaled to fit the 50.
\<close>

theorem distribuir_venda_nao_reparte:
  "distribuir_venda 50 [None, None] = [Some 50, Some 50]
   \<and> distribuir_venda 50 [Some 80, None] = [Some 80, Some 0]"
  by (simp add: distribuir_venda_def repartir_def soma_declarados_def nao_definidos_def)

theorem distribuir_venda_nao_reparte_witness:
  "distribuir_venda 50 [None, None] \<noteq> [Some 25, Some 25]
   \<and> distribuir_venda 50 [Some 80, None] \<noteq> [Some 50, Some 0]"
  using distribuir_venda_nao_reparte by simp

text \<open>
  C4 (counterexample). Applied to the empty bare-ownership ledger, a death action with the
  agent Ana and the heir Xavier leaves the ledger empty; a partition with the agent Ana and
  the beneficiary Xavier, who declares 50, leaves Xavier with 50; a marital-status change
  of Ana leaves the ledger empty. In none of them is Ana given 100% first: had the ledger
  been bootstrapped, the results would be Xavier with 100, Xavier with 100 and Ana with 100.
\<close>

theorem bootstrap_obito_counterexample:
  "processar_acao ([], [])
     (acao_ex ''Falecimento'' ''05/01/2020'' [pessoa_ex ''Ana'' None None] [pessoa_ex ''Xavier'' None None])
   = Inr ([], [])
   \<and> processar_acao (inicializar [pessoa_ex ''Ana'' None None], [])
     (acao_ex ''Falecimento'' ''05/01/2020'' [pessoa_ex ''Ana'' None None] [pessoa_ex ''Xavier'' None None])
   = Inr ([(''XAVIER'', registro_ex ''Xavier'' 100)], [])
   \<and> processar_acao ([], [])
     (acao_ex ''Partilha'' ''05/01/2020'' [pessoa_ex ''Ana'' None None]
        [pessoa_ex ''Xavier'' None (Some (PStr ''50''))])
   = Inr ([(''XAVIER'', registro_ex ''Xavier'' 50)], [])
   \<and> processar_acao (inicializar [pessoa_ex ''Ana'' None None], [])
     (acao_ex ''Partilha'' ''05/01/2020'' [pessoa_ex ''Ana'' None None]
        [pessoa_ex ''Xavier'' None (Some (PStr ''50''))])
   = Inr ([(''XAVIER'', registro_ex ''Xavier'' 100)], [])
   \<and> processar_acao ([], [])
     (acao_ex t_alteracao_estado_civil ''05/01/2020'' [pessoa_ex ''Ana'' None None] [])
   = Inr ([], [])
   \<and> processar_acao (inicializar [pessoa_ex ''Ana'' None None], [])
     (acao_ex t_alteracao_estado_civil ''05/01/2020'' [pessoa_ex ''Ana'' None None] [])
   = Inr ([(''ANA'', registro_ex ''Ana'' 100)], [])"
  by code_simp

text \<open>
  C4 (amended). For every transfer (sale or donation) that supplies a non-empty agents list
  and is applied while the bare-ownership ledger is empty, the ledger is first initialized
  with one record per agent key, each with 100/N percent for the N listed agents, and the
  transfer's own transition is applied to that ledger. An action of any other category
  does not bootstrap: applied to the empty bare-ownership ledger it has the effect of the
  same action with an empty agents list. In particular a death action leaves the ledger
  empty, a partition credits its beneficiaries as if no agent were listed, and a
  marital-status change creates its agents with 0 percent, records that the pruning at the
  end of the action removes.
\<close>

theorem bootstrap_venda:
  "(agentes \<noteq> [] \<longrightarrow>
      atualizar_proprietarios_parcial [] agentes beneficiarios
        = atualizar_proprietarios_parcial (inicializar agentes) agentes beneficiarios
      \<and> fst ` set (inicializar agentes) = chave_proprietario ` set agentes
      \<and> distinct (map fst (inicializar agentes))
      \<and> (\<forall>kv \<in> set (inicializar agentes). Percentual (snd kv) = 100 / of_nat (length agentes)))
   \<and> (chega_a_transferencia a \<and> Agents a \<noteq> [] \<longrightarrow>
        processar_acao ([], usu) a = processar_acao (inicializar (Agents a), usu) a)
   \<and> (\<not> chega_a_transferencia a \<longrightarrow>
        processar_acao ([], usu) a = processar_acao ([], usu) (a\<lparr>Agents := []\<rparr>))
   \<and> processar_obito [] agentes beneficiarios = Inr []
   \<and> processar_partilha [] agentes beneficiarios = processar_partilha [] [] beneficiarios
   \<and> (\<forall>kv \<in> set (processar_alteracao_estado_civil [] agentes). Percentual (snd kv) = 0)
   \<and> podar (processar_alteracao_estado_civil [] agentes) = []"
proof -
  have p1: "atualizar_proprietarios_parcial [] agentes beneficiarios
        = atualizar_proprietarios_parcial (inicializar agentes) agentes beneficiarios
      \<and> fst ` set (inicializar agentes) = chave_proprietario ` set agentes
      \<and> distinct (map fst (inicializar agentes))
      \<and> (\<forall>kv \<in> set (inicializar agentes). Percentual (snd kv) = 100 / of_nat (length agentes))"
    if ag: "agentes \<noteq> []"
  proof -
    have k: "fst ` set (inicializar agentes) = chave_proprietario ` set agentes"
      unfolding inicializar_def by (simp add: inicializar_aux_keys)
    then have ne: "inicializar agentes \<noteq> []" using ag by auto
    have d: "distinct (map fst (inicializar agentes))"
      unfolding inicializar_def by (rule inicializar_aux_distinct) simp
    have v: "\<forall>kv \<in> set (inicializar agentes). Percentual (snd kv) = 100 / of_nat (length agentes)"
      unfolding inicializar_def by (rule inicializar_aux_vals) simp
    have "atualizar_proprietarios_parcial [] agentes beneficiarios
           = atualizar_proprietarios_parcial (inicializar agentes) agentes beneficiarios"
      using ag ne by (simp add: atualizar_proprietarios_parcial_def)
    then show ?thesis using k d v by blast
  qed
  have p5: "processar_partilha [] agentes beneficiarios = processar_partilha [] [] beneficiarios"
    by (simp only: partilha_vazio)
  have p6: "\<forall>kv \<in> set (processar_alteracao_estado_civil [] agentes). Percentual (snd kv) = 0"
    by (rule alteracao_zero) simp
  show ?thesis
    using p1 com_bootstrap[of a usu] sem_bootstrap[of a usu] obito_vazio[of agentes beneficiarios]
      p5 p6 alteracao_vazio_podado[of agentes]
    by blast
qed

theorem bootstrap_venda_witness:
  "atualizar_proprietarios_parcial []
     [pessoa_ex ''Ana'' (Some (PStr ''50'')) None, pessoa_ex ''Bia'' None None]
     [pessoa_ex ''Xavier'' None (Some (PStr ''25''))]
   = atualizar_proprietarios_parcial [(''ANA'', registro_ex ''Ana'' 50), (''BIA'', registro_ex ''Bia'' 50)]
     [pessoa_ex ''Ana'' (Some (PStr ''50'')) None, pessoa_ex ''Bia'' None None]
     [pessoa_ex ''Xavier'' None (Some (PStr ''25''))]
   \<and> processar_acao ([], [])
       (acao_ex ''Venda'' ''05/01/2020''
          [pessoa_ex ''Ana'' (Some (PStr ''50'')) None, pessoa_ex ''Bia'' None None]
          [pessoa_ex ''Xavier'' None (Some (PStr ''25''))])
     = processar_acao ([(''ANA'', registro_ex ''Ana'' 50), (''BIA'', registro_ex ''Bia'' 50)], [])
       (acao_ex ''Venda'' ''05/01/2020''
          [pessoa_ex ''Ana'' (Some (PStr ''50'')) None, pessoa_ex ''Bia'' None None]
          [pessoa_ex ''Xavier'' None (Some (PStr ''25''))])
   \<and> processar_acao ([], [])
       (acao_ex ''Partilha'' ''05/01/2020'' [pessoa_ex ''Ana'' None None] [pessoa_ex ''Xavier'' None None])
     = processar_acao ([], [])
       (acao_ex ''Partilha'' ''05/01/2020'' [] [pessoa_ex ''Xavier'' None None])"
proof -
  let ?ags = "[pessoa_ex ''Ana'' (Some (PStr ''50'')) None, pessoa_ex ''Bia'' None None]"
  let ?bens = "[pessoa_ex ''Xavier'' None (Some (PStr ''25''))]"
  let ?venda = "acao_ex ''Venda'' ''05/01/2020'' ?ags ?bens"
  let ?partilha = "acao_ex ''Partilha'' ''05/01/2020'' [pessoa_ex ''Ana'' None None]
                     [pessoa_ex ''Xavier'' None None]"
  have i: "inicializar ?ags = [(''ANA'', registro_ex ''Ana'' 50), (''BIA'', registro_ex ''Bia'' 50)]"
    by code_simp
  have h: "?ags \<noteq> []" by simp
  have t: "chega_a_transferencia ?venda" by code_simp
  have ag: "Agents ?venda = ?ags" by (simp add: acao_ex_def)
  have nt: "\<not> chega_a_transferencia ?partilha" by code_simp
  have sa: "?partilha\<lparr>Agents := []\<rparr>
            = acao_ex ''Partilha'' ''05/01/2020'' [] [pessoa_ex ''Xavier'' None None]"
    by (simp add: acao_ex_def)
  have a: "atualizar_proprietarios_parcial [] ?ags ?bens
           = atualizar_proprietarios_parcial (inicializar ?ags) ?ags ?bens"
    using bootstrap_venda[of ?ags ?bens] h by blast
  have b: "processar_acao ([], []) ?venda = processar_acao (inicializar (Agents ?venda), []) ?venda"
    using bootstrap_venda[of _ _ ?venda "[]"] t h ag by simp
  have c: "processar_acao ([], []) ?partilha = processar_acao ([], []) (?partilha\<lparr>Agents := []\<rparr>)"
    using bootstrap_venda[of _ _ ?partilha "[]"] nt by blast
  show ?thesis using a b c unfolding ag i sa by simp
qed

section \<open>Death: results\<close>

text \<open>
  C10. A death action without beneficiaries removes every listed holder that the ledger
  has and credits nobody: the other records are left as they were, the keys of the deceased
  are absent afterwards, and the ledger's total falls by exactly what the removed records
  held.
\<close>

theorem obito_sem_herdeiros:
  "\<exists>r. processar_obito props agentes [] = Inr r
     \<and> r = filter (\<lambda>kv. fst kv \<notin> chave_proprietario ` set agentes) props
     \<and> (\<forall>a \<in> set agentes. map_of r (chave_proprietario a) = None)
     \<and> total r = total props - total (filter (\<lambda>kv. fst kv \<in> chave_proprietario ` set agentes) props)"
proof -
  let ?r = "filter (\<lambda>kv. fst kv \<notin> chave_proprietario ` set agentes) props"
  have "processar_obito props agentes [] = Inr ?r"
    by (simp add: processar_obito_def obito_sem_beneficiarios)
  moreover have "\<forall>a \<in> set agentes. map_of ?r (chave_proprietario a) = None"
    by (auto simp: map_of_None_keys)
  moreover have "total ?r = total props - total (filter (\<lambda>kv. fst kv \<in> chave_proprietario ` set agentes) props)"
    using total_filter_split[of props "\<lambda>kv. fst kv \<in> chave_proprietario ` set agentes"] by simp
  ultimately show ?thesis by blast
qed

theorem obito_sem_herdeiros_witness:
  "processar_obito [(''ANA'', registro_ex ''Ana'' 40), (''BIA'', registro_ex ''Bia'' 60)]
     [pessoa_ex ''Ana'' None None] []
   = Inr [(''BIA'', registro_ex ''Bia'' 60)]
   \<and> total [(''BIA'', registro_ex ''Bia'' 60)] = 100 - 40"
proof -
  have k: "chave_proprietario (pessoa_ex ''Ana'' None None) = ''ANA''"
    by code_simp
  show ?thesis
    using obito_sem_herdeiros[of "[(''ANA'', registro_ex ''Ana'' 40), (''BIA'', registro_ex ''Bia'' 60)]"
        "[pessoa_ex ''Ana'' None None]"]
    by (simp add: k total_def registro_ex_def)
qed




section \<open>The dispatcher: results\<close>

text \<open>
  C5 (failing input). An action labelled "Cancelamento de Usufruto" with one beneficiary,
  applied to empty ledgers, adds the beneficiary to the usufruct ledger with 100%: the label
  holds "usufruto", so the dispatcher takes the branch of the usufruct grant, which comes
  before the branch of the cancellation (see \<open>cancelamento_contem_usufruto\<close>).
\<close>

theorem cancelamento_usufruto_credita:
  "processar_acao ([], [])
     (acao_ex ''Cancelamento de Usufruto'' ''05/01/2020'' [] [pessoa_ex ''Xavier'' None None])
   = Inr ([], [(''XAVIER'', registro_ex ''Xavier'' 100)])"
  by code_simp

theorem cancelamento_usufruto_credita_witness:
  "processar_acao ([], [])
     (acao_ex ''Cancelamento de Usufruto'' ''05/01/2020'' [] [pessoa_ex ''Xavier'' None None])
   \<noteq> Inr ([], [])"
  using cancelamento_usufruto_credita by simp




section \<open>The normalizer: results\<close>

text \<open>
  C8 (counterexample). Two sales with the raw dates "05/01/2020" and "2020-01-05" have
  different deduplication keys, so the normalizer keeps both and writes the same canonical
  date into both. Its output then holds two actions with one key, and normalizing that
  output drops the second: the normalizer changes its own output. And a single sale dated
  "01/01/0999", a list that is sorted and without duplicates, comes back dated "01/01/999",
  which no format reads again: normalizing that output dates it "01/01/1900".
\<close>

theorem normalizar_proprio_resultado_counterexample:
  "normalizar_e_ordenar_acoes
     [acao_ex ''Venda'' ''05/01/2020'' [] [], acao_ex ''Venda'' ''2020-01-05'' [] []]
   = [acao_ex ''Venda'' ''05/01/2020'' [] [], acao_ex ''Venda'' ''05/01/2020'' [] []]
   \<and> normalizar_e_ordenar_acoes
     [acao_ex ''Venda'' ''05/01/2020'' [] [], acao_ex ''Venda'' ''05/01/2020'' [] []]
   = [acao_ex ''Venda'' ''05/01/2020'' [] []]
   \<and> normalizar_e_ordenar_acoes [acao_ex ''Venda'' ''01/01/0999'' [] []]
   = [acao_ex ''Venda'' ''01/01/999'' [] []]
   \<and> normalizar_e_ordenar_acoes [acao_ex ''Venda'' ''01/01/999'' [] []]
   = [acao_ex ''Venda'' ''01/01/1900'' [] []]"
  by code_simp

text \<open>
  C8 (amended). The normalizer returns unchanged every list that is sorted by (parsed date,
  lower-cased type label), whose deduplication keys are pairwise distinct and whose actions
  each hold in \<^verbatim>\<open>Date\<close> the canonical day/month/year text of their own date. When every
  date of a list parses to a year from 1000 on (the date 01/01/1900 that stands for an
  unreadable text included), the normalizer's output is sorted and canonical, so
  normalizing it again returns it unchanged whenever its deduplication keys are still
  pairwise distinct, that is, whenever the canonical dates have not made two kept actions
  alike.
\<close>

theorem normalizar_ja_normalizada:
  "(sorted (map chave_ordem acoes) \<and> distinct (map chave_de_acao acoes)
      \<and> (\<forall>a \<in> set acoes. Date a = Some (strftime (parse_data (data_da_acao a))))
    \<longrightarrow> normalizar_e_ordenar_acoes acoes = acoes)
   \<and> ((\<forall>a \<in> set lista. 1000 \<le> fst (parse_data (data_da_acao a)))
      \<and> distinct (map chave_de_acao (normalizar_e_ordenar_acoes lista))
    \<longrightarrow> normalizar_e_ordenar_acoes (normalizar_e_ordenar_acoes lista)
        = normalizar_e_ordenar_acoes lista)"
  using normalizar_id normalizar_id[OF normalizar_ordenada _ normalizar_canonica, of lista]
  by blast

theorem normalizar_ja_normalizada_witness:
  "normalizar_e_ordenar_acoes
     [acao_ex ''Doacao'' ''05/01/2020'' [] [], acao_ex ''Venda'' ''05/01/2020'' [] [],
      acao_ex ''Venda'' ''06/01/2020'' [] []]
   = [acao_ex ''Doacao'' ''05/01/2020'' [] [], acao_ex ''Venda'' ''05/01/2020'' [] [],
      acao_ex ''Venda'' ''06/01/2020'' [] []]
   \<and> normalizar_e_ordenar_acoes (normalizar_e_ordenar_acoes
        [acao_ex ''Venda'' ''2020-01-06'' [] [], acao_ex ''Doacao'' ''5/1/2020'' [] []])
   = [acao_ex ''Doacao'' ''05/01/2020'' [] [], acao_ex ''Venda'' ''06/01/2020'' [] []]"
proof -
  let ?l = "[acao_ex ''Doacao'' ''05/01/2020'' [] [], acao_ex ''Venda'' ''05/01/2020'' [] [],
      acao_ex ''Venda'' ''06/01/2020'' [] []]"
  let ?m = "[acao_ex ''Venda'' ''2020-01-06'' [] [], acao_ex ''Doacao'' ''5/1/2020'' [] []]"
  have h1: "sorted (map chave_ordem ?l)" by code_simp
  have h2: "distinct (map chave_de_acao ?l)" by code_simp
  have h3: "\<forall>a \<in> set ?l. Date a = Some (strftime (parse_data (data_da_acao a)))" by code_simp
  have n: "normalizar_e_ordenar_acoes ?m
           = [acao_ex ''Doacao'' ''05/01/2020'' [] [], acao_ex ''Venda'' ''06/01/2020'' [] []]"
    by code_simp
  have h4: "distinct (map chave_de_acao (normalizar_e_ordenar_acoes ?m))"
    unfolding n by code_simp
  have h5: "\<forall>a \<in> set ?m. 1000 \<le> fst (parse_data (data_da_acao a))" by code_simp
  have a: "normalizar_e_ordenar_acoes ?l = ?l"
    using normalizar_ja_normalizada[of ?l] h1 h2 h3 by blast
  have b: "normalizar_e_ordenar_acoes (normalizar_e_ordenar_acoes ?m) = normalizar_e_ordenar_acoes ?m"
    using normalizar_ja_normalizada[of _ ?m] h4 h5 by blast
  show ?thesis using a b n by simp
qed

end
